theory Spec2Isabelle
  imports Complex_Main "HOL-Library.Log_Nat"
begin

section \<open>Numbers: Python ints, binary64 floats, and \<open>int(x * scale_factor)\<close>\<close>

text \<open>
  Every numeric field of the font is a Python \<open>int\<close> (unbounded, modelled as \<^typ>\<open>int\<close>).
  The scale factor is a Python \<open>float\<close>, an IEEE binary64 number; a finite float is a
  rational number, so it is modelled as the \<^typ>\<open>rat\<close> it denotes.

  The one arithmetic expression of the script is \<open>int(x * scale_factor)\<close>:
  \<^item> \<open>x * scale_factor\<close> converts the int \<open>x\<close> to a float (correctly rounded) and multiplies
    the two floats; the result is the exact product rounded to the nearest binary64 number,
    ties to even (\<open>fl\<close> below);
  \<^item> \<open>int(...)\<close> of a float truncates toward zero (\<open>py_int\<close>).

  \<open>fl\<close> keeps 53 significant bits and leaves the exponent unbounded: magnitudes beyond the
  binary64 range (about \<open>1.8e308\<close>, where Python raises OverflowError) are outside the model.
\<close>

definition py_int :: "rat \<Rightarrow> int" where
  "py_int q = (if q < 0 then - \<lfloor>- q\<rfloor> else \<lfloor>q\<rfloor>)"

definition round_half_even :: "rat \<Rightarrow> int" where
  "round_half_even q =
     (let n = \<lfloor>q\<rfloor>; d = q - of_int n
      in if d < 1 / 2 then n
         else if 1 / 2 < d then n + 1
         else if even n then n else n + 1)"

definition round_half_away :: "rat \<Rightarrow> int" where
  "round_half_away q = (if q < 0 then - \<lfloor>- q + 1 / 2\<rfloor> else \<lfloor>q + 1 / 2\<rfloor>)"

text \<open>\<open>ilog2 q\<close> for \<open>0 < q\<close> is the exponent \<open>e\<close> with \<open>2^e \<le> q < 2^(e+1)\<close>.\<close>

definition ilog2 :: "rat \<Rightarrow> int" where
  "ilog2 q = (if 1 \<le> q then bitlen \<lfloor>q\<rfloor> - 1 else - bitlen (\<lceil>1 / q\<rceil> - 1))"

definition pow2 :: "int \<Rightarrow> rat" where
  "pow2 k = (if 0 \<le> k then 2 ^ nat k else 1 / 2 ^ nat (- k))"

definition fl :: "rat \<Rightarrow> rat" where
  "fl q = (if q = 0 then 0
           else let p = 52 - ilog2 \<bar>q\<bar>
                in of_int (round_half_even (q * pow2 p)) / pow2 p)"

definition fmul :: "rat \<Rightarrow> rat \<Rightarrow> rat" where
  "fmul a b = fl (a * b)"

definition float_of_int :: "int \<Rightarrow> rat" where
  "float_of_int x = fl (of_int x)"

text \<open>\<open>int(x * scale_factor)\<close>\<close>

definition scale_int :: "int \<Rightarrow> rat \<Rightarrow> int" where
  "scale_int x scale_factor = py_int (fmul (float_of_int x) scale_factor)"

section \<open>Strings: \<open>in\<close> and \<open>str.replace\<close>\<close>

text \<open>
  A Python \<open>str\<close> is a sequence of code points, modelled as \<^typ>\<open>string\<close> (the family names
  of this font are ASCII). \<open>contains text sub\<close> is \<open>sub in text\<close>; \<open>replace text old new\<close>
  is \<open>text.replace(old, new)\<close>: every non-overlapping occurrence, leftmost first, and for
  the empty pattern \<open>new\<close> inserted before every character and at the end.
\<close>

fun starts_with :: "string \<Rightarrow> string \<Rightarrow> bool" where
  "starts_with text [] = True"
| "starts_with [] (p # ps) = False"
| "starts_with (c # cs) (p # ps) = (c = p \<and> starts_with cs ps)"

fun contains :: "string \<Rightarrow> string \<Rightarrow> bool" where
  "contains [] sub = (sub = [])"
| "contains (c # cs) sub = (starts_with (c # cs) sub \<or> contains cs sub)"

function replace :: "string \<Rightarrow> string \<Rightarrow> string \<Rightarrow> string" where
  "replace text old new =
     (if old = [] then new @ concat (map (\<lambda>c. c # new) text)
      else case text of
             [] \<Rightarrow> []
           | c # cs \<Rightarrow>
               if starts_with text old then new @ replace (drop (length old) text) old new
               else c # replace cs old new)"
  by pat_completeness auto
termination
  by (relation "measure (\<lambda>(text, old, new). length text)") auto

declare replace.simps [simp del]

text \<open>\<open>old_family.replace(" ", "")\<close>\<close>

definition nospace :: "string \<Rightarrow> string" where
  "nospace family = replace family '' '' []"

section \<open>The naming table and \<open>rename_font\<close>\<close>

text \<open>
  A naming record carries its four identifying numbers and its string. \<open>toUnicode r\<close> is the
  result of \<open>record.toUnicode()\<close>: \<open>None\<close> when decoding raises.

  \<open>setName\<close> is the font library's: it stores the string in the first record that has the
  four given numbers, and appends a new record when there is none.
\<close>

record name_record =
  nameID :: nat
  platformID :: nat
  platEncID :: nat
  langID :: nat
  toUnicode :: "string option"

definition same_ids :: "name_record \<Rightarrow> name_record \<Rightarrow> bool" where
  "same_ids r r' \<longleftrightarrow>
     nameID r = nameID r' \<and> platformID r = platformID r' \<and>
     platEncID r = platEncID r' \<and> langID r = langID r'"

fun setName :: "string \<Rightarrow> name_record \<Rightarrow> name_record list \<Rightarrow> name_record list" where
  "setName new_text r [] = [r\<lparr>toUnicode := Some new_text\<rparr>]"
| "setName new_text r (n # names) =
     (if same_ids n r then n\<lparr>toUnicode := Some new_text\<rparr> # names
      else n # setName new_text r names)"

text \<open>The body of the loop over \<open>name_table.names\<close>, for one record.\<close>

definition rename_record :: "string \<Rightarrow> string \<Rightarrow> name_record \<Rightarrow> name_record list \<Rightarrow> name_record list" where
  "rename_record old_family new_family r names =
     (case toUnicode r of
        None \<Rightarrow> names
      | Some t \<Rightarrow>
          let names1 = (if contains t old_family
                        then setName (replace t old_family new_family) r names
                        else names);
              old_nospace = nospace old_family;
              new_nospace = nospace new_family
          in if contains t old_nospace \<and> \<not> contains t old_family
             then setName (replace t old_nospace new_nospace) r names1
             else names1)"

lemma length_setName_same:
  "i < length names \<Longrightarrow> same_ids (names ! i) r \<Longrightarrow> length (setName s r names) = length names"
proof (induction names arbitrary: i)
  case Nil
  then show ?case by simp
next
  case (Cons n names)
  then show ?case by (cases i) auto
qed

lemma same_ids_setName:
  "i < length names \<Longrightarrow> same_ids (setName s r names ! i) r' = same_ids (names ! i) r'"
proof (induction names arbitrary: i)
  case Nil
  then show ?case by simp
next
  case (Cons n names)
  then show ?case by (cases i) (auto simp: same_ids_def)
qed

lemma length_rename_record:
  assumes "i < length names" "same_ids (names ! i) r"
  shows "length (rename_record old_family new_family r names) = length names"
proof -
  have 1: "length (setName s r names) = length names" for s
    using assms by (rule length_setName_same)
  have 2: "length (setName s' r (setName s r names)) = length names" for s s'
    using assms 1 [of s] same_ids_setName [of i names s r r]
    by (simp add: length_setName_same [of i])
  show ?thesis
    by (simp add: rename_record_def Let_def 1 2 split: option.split)
qed

text \<open>
  \<open>for record in name_table.names\<close> walks the list by position while the body updates it.
\<close>

function rename_names :: "string \<Rightarrow> string \<Rightarrow> nat \<Rightarrow> name_record list \<Rightarrow> name_record list" where
  "rename_names old_family new_family i names =
     (if i < length names
      then rename_names old_family new_family (Suc i)
             (rename_record old_family new_family (names ! i) names)
      else names)"
  by pat_completeness auto
termination
proof (relation "measure (\<lambda>(old_family, new_family, i, names). length names - i)", goal_cases)
  case 1
  then show ?case by simp
next
  case (2 old_family new_family i names)
  have "same_ids (names ! i) (names ! i)" by (simp add: same_ids_def)
  with 2 have "length (rename_record old_family new_family (names ! i) names) = length names"
    by (intro length_rename_record) auto
  with 2 show ?case by simp
qed

declare rename_names.simps [simp del]

section \<open>TrueType glyphs and \<open>scale_glyph_ttf\<close>\<close>

text \<open>
  A component of a composite glyph has the attributes \<open>x\<close> and \<open>y\<close> (here \<open>comp_x\<close>,
  \<open>comp_y\<close>) unless it is placed by point matching: \<open>None\<close> is \<open>hasattr\<close> being false.
  A glyph has its bounding box (\<open>xMin\<close>, \<open>yMin\<close>, \<open>xMax\<close>, \<open>yMax\<close>) once it has an outline:
  \<open>bounds = None\<close> is \<open>hasattr(glyph, 'xMin')\<close> being false.
  \<open>isComposite\<close> is the font library's test, \<open>numberOfContours == -1\<close>.
\<close>

record component =
  glyphName :: string
  comp_x :: "int option"
  comp_y :: "int option"

record bbox =
  xMin :: int
  yMin :: int
  xMax :: int
  yMax :: int

record glyph =
  numberOfContours :: int
  components :: "component list"
  coordinates :: "(int \<times> int) list"
  bounds :: "bbox option"

type_synonym glyf_table = "(string \<times> glyph) list"

definition isComposite :: "glyph \<Rightarrow> bool" where
  "isComposite g \<longleftrightarrow> numberOfContours g = - 1"

definition scale_component :: "component \<Rightarrow> rat \<Rightarrow> component" where
  "scale_component c scale_factor =
     c\<lparr>comp_x := (case comp_x c of None \<Rightarrow> None | Some v \<Rightarrow> Some (scale_int v scale_factor)),
       comp_y := (case comp_y c of None \<Rightarrow> None | Some v \<Rightarrow> Some (scale_int v scale_factor))\<rparr>"

definition scale_bbox :: "bbox \<Rightarrow> rat \<Rightarrow> bbox" where
  "scale_bbox b scale_factor =
     b\<lparr>xMin := scale_int (xMin b) scale_factor,
       yMin := scale_int (yMin b) scale_factor,
       xMax := scale_int (xMax b) scale_factor,
       yMax := scale_int (yMax b) scale_factor\<rparr>"

definition scale_glyph_ttf :: "glyph \<Rightarrow> glyf_table \<Rightarrow> rat \<Rightarrow> glyph" where
  "scale_glyph_ttf g glyf_table scale_factor =
     (let g1 =
        (if isComposite g
         then g\<lparr>components := map (\<lambda>c. scale_component c scale_factor) (components g)\<rparr>
         else if numberOfContours g > 0
         then g\<lparr>coordinates :=
                  map (\<lambda>(x, y). (scale_int x scale_factor, scale_int y scale_factor))
                    (coordinates g)\<rparr>
         else g)
      in case bounds g1 of
           None \<Rightarrow> g1
         | Some b \<Rightarrow>
             if numberOfContours g1 \<noteq> 0 then g1\<lparr>bounds := Some (scale_bbox b scale_factor)\<rparr>
             else g1)"

text \<open>The loop of \<open>scale_font\<close> over \<open>glyf.keys()\<close>: empty glyphs are skipped.\<close>

definition scale_glyf :: "glyf_table \<Rightarrow> rat \<Rightarrow> glyf_table" where
  "scale_glyf glyf_table scale_factor =
     map (\<lambda>(glyph_name, g).
            (glyph_name,
             if numberOfContours g \<noteq> 0 then scale_glyph_ttf g glyf_table scale_factor else g))
       glyf_table"

section \<open>CFF outlines\<close>

text \<open>
  A CFF charstring is a program: the glyph's width, when it is not the default width of
  the font, followed by the drawing commands. The script draws the commands through the
  transform \<open>(scale_factor, 0, 0, scale_factor, 0, 0)\<close> into a new
  \<open>T2CharStringPen(width=None, ...)\<close> and stores what the pen has recorded. The pens are
  not part of this program: the type \<open>'cs\<close> of the drawing commands and the commands
  \<open>redraw scale_factor program\<close> that the pen records are parameters. The width of the new
  charstring is the one the script gives the pen, \<open>None\<close>.
\<close>

record 'cs charstring =
  cs_width :: "int option"
  cs_program :: 'cs

record 'cs cff_table =
  fontNames :: "string list option"
  FamilyName :: "string option"
  FullName :: "string option"
  CharStrings :: "(string \<times> 'cs charstring) list"

section \<open>The GPOS table\<close>

text \<open>
  An attribute that may be missing or null is an \<open>option\<close>: \<open>None\<close> is \<open>hasattr\<close> being
  false, or the value \<open>None\<close> in a slot of a list. A record that the script only walks
  through is the list it holds: a pair set is its \<open>PairValueRecord\<close> list, a
  \<open>Class1Record\<close> its \<open>Class2Record\<close> list, a \<open>BaseRecord\<close> its \<open>BaseAnchor\<close> list, a
  \<open>MarkRecord\<close> its \<open>MarkAnchor\<close>, a \<open>Mark2Record\<close> its \<open>Mark2Anchor\<close> list, a
  \<open>LigatureAttach\<close> its \<open>ComponentRecord\<close> list and a \<open>ComponentRecord\<close> its
  \<open>LigatureAnchor\<close> list. \<open>PairValueRecord\<close> and \<open>Class2Record\<close> both carry \<open>Value1\<close>
  and \<open>Value2\<close>.

  A subtable object has the attributes of its kind. The script tests seven of them, the
  first seven fields of \<open>subtable\<close>. The font library keeps numbers under four more, which
  the script never reads: the value records of a single adjustment are the attribute
  \<open>Value\<close> (one record in format 1, a list in format 2: here a list), the anchors of the
  attaching marks of a mark-to-mark subtable are \<open>Mark1Array\<close> (a \<open>MarkArray\<close> under another
  name), a cursive attachment has the \<open>EntryAnchor\<close> and \<open>ExitAnchor\<close> of its
  \<open>EntryExitRecord\<close> list, and an extension subtable wraps another subtable as
  \<open>ExtSubTable\<close>. An object of the library has no attribute \<open>SinglePos\<close>: that is the name
  of the class of a single adjustment.
\<close>

record value_record =
  XPlacement :: "int option"
  YPlacement :: "int option"
  XAdvance :: "int option"
  YAdvance :: "int option"

record anchor =
  XCoordinate :: "int option"
  YCoordinate :: "int option"

record pair_value =
  Value1 :: "value_record option"
  Value2 :: "value_record option"

record entry_exit_record =
  EntryAnchor :: "anchor option"
  ExitAnchor :: "anchor option"

record subtable =
  SinglePos :: "value_record list option"
  PairSet :: "pair_value list option list option"
  Class1Record :: "pair_value list list option"
  BaseArray :: "anchor option list list option"
  MarkArray :: "anchor option list option"
  Mark2Array :: "anchor option list list option"
  LigatureArray :: "anchor option list list list option"
  Value :: "value_record list option"
  Mark1Array :: "anchor option list option"
  EntryExitRecord :: "entry_exit_record list option"

record lookup_subtable = subtable +
  ExtSubTable :: "subtable option"

record gpos_table =
  LookupList :: "lookup_subtable list list option"

text \<open>\<open>if hasattr(value_record, 'XPlacement') and value_record.XPlacement: ...\<close>\<close>

definition scale_value_field :: "int option \<Rightarrow> rat \<Rightarrow> int option" where
  "scale_value_field v scale_factor =
     (case v of
        None \<Rightarrow> None
      | Some n \<Rightarrow> if n \<noteq> 0 then Some (scale_int n scale_factor) else Some n)"

definition scale_value_record :: "value_record \<Rightarrow> rat \<Rightarrow> value_record" where
  "scale_value_record vr scale_factor =
     vr\<lparr>XPlacement := scale_value_field (XPlacement vr) scale_factor,
        YPlacement := scale_value_field (YPlacement vr) scale_factor,
        XAdvance := scale_value_field (XAdvance vr) scale_factor,
        YAdvance := scale_value_field (YAdvance vr) scale_factor\<rparr>"

definition scale_anchor :: "anchor \<Rightarrow> rat \<Rightarrow> anchor" where
  "scale_anchor a scale_factor =
     a\<lparr>XCoordinate := (case XCoordinate a of None \<Rightarrow> None
                         | Some v \<Rightarrow> Some (scale_int v scale_factor)),
       YCoordinate := (case YCoordinate a of None \<Rightarrow> None
                         | Some v \<Rightarrow> Some (scale_int v scale_factor))\<rparr>"

text \<open>\<open>if anchor: scale_anchor(anchor, scale_factor)\<close>\<close>

definition scale_anchor_slot :: "anchor option \<Rightarrow> rat \<Rightarrow> anchor option" where
  "scale_anchor_slot slot scale_factor =
     (case slot of None \<Rightarrow> None | Some a \<Rightarrow> Some (scale_anchor a scale_factor))"

text \<open>The two guarded calls on \<open>Value1\<close> and \<open>Value2\<close>.\<close>

definition scale_pair_value :: "pair_value \<Rightarrow> rat \<Rightarrow> pair_value" where
  "scale_pair_value pv scale_factor =
     pv\<lparr>Value1 := (case Value1 pv of None \<Rightarrow> None
                     | Some vr \<Rightarrow> Some (scale_value_record vr scale_factor)),
        Value2 := (case Value2 pv of None \<Rightarrow> None
                     | Some vr \<Rightarrow> Some (scale_value_record vr scale_factor))\<rparr>"

text \<open>
  The seven \<open>hasattr\<close> blocks of \<open>scale_gpos_subtable\<close>, in their order. Nothing else of the
  subtable is assigned to.
\<close>

definition scale_gpos_subtable :: "'a subtable_scheme \<Rightarrow> rat \<Rightarrow> 'a subtable_scheme" where
  "scale_gpos_subtable st scale_factor =
     st\<lparr>SinglePos :=
          (case SinglePos st of None \<Rightarrow> None
           | Some records \<Rightarrow> Some (map (\<lambda>r. scale_value_record r scale_factor) records)),
        PairSet :=
          (case PairSet st of None \<Rightarrow> None
           | Some pair_sets \<Rightarrow>
               Some (map (\<lambda>pair_set.
                            case pair_set of None \<Rightarrow> None
                            | Some pvs \<Rightarrow> Some (map (\<lambda>pv. scale_pair_value pv scale_factor) pvs))
                       pair_sets)),
        Class1Record :=
          (case Class1Record st of None \<Rightarrow> None
           | Some class1_records \<Rightarrow>
               Some (map (map (\<lambda>class2_record. scale_pair_value class2_record scale_factor))
                       class1_records)),
        BaseArray :=
          (case BaseArray st of None \<Rightarrow> None
           | Some base_records \<Rightarrow>
               Some (map (map (\<lambda>a. scale_anchor_slot a scale_factor)) base_records)),
        MarkArray :=
          (case MarkArray st of None \<Rightarrow> None
           | Some mark_records \<Rightarrow>
               Some (map (\<lambda>a. scale_anchor_slot a scale_factor) mark_records)),
        Mark2Array :=
          (case Mark2Array st of None \<Rightarrow> None
           | Some mark2_records \<Rightarrow>
               Some (map (map (\<lambda>a. scale_anchor_slot a scale_factor)) mark2_records)),
        LigatureArray :=
          (case LigatureArray st of None \<Rightarrow> None
           | Some lig_attaches \<Rightarrow>
               Some (map (map (map (\<lambda>a. scale_anchor_slot a scale_factor))) lig_attaches))\<rparr>"

definition scale_gpos_values :: "gpos_table \<Rightarrow> rat \<Rightarrow> gpos_table" where
  "scale_gpos_values t scale_factor =
     (case LookupList t of
        None \<Rightarrow> t
      | Some lookups \<Rightarrow>
          t\<lparr>LookupList :=
              Some (map (map (\<lambda>st. scale_gpos_subtable st scale_factor)) lookups)\<rparr>)"

section \<open>Metrics and header tables\<close>

text \<open>
  \<open>hmtx.metrics\<close> and \<open>vmtx.metrics\<close> are dicts from a glyph name to a pair, and a
  \<open>kernTable\<close> is a dict from a glyph pair to a value: a dict is the list of its items,
  in the dict's order, each key once. The \<open>head\<close> table is used for its bounding box only.
  In the \<open>OS/2\<close> table \<open>sxHeight\<close> and \<open>sCapHeight\<close> exist from version 2 of the table on:
  \<open>None\<close> is the attribute missing from the object.
\<close>

type_synonym metrics = "(string \<times> int \<times> int) list"

record hhea_table =
  hhea_ascent :: int
  hhea_descent :: int
  hhea_lineGap :: int
  advanceWidthMax :: int
  minLeftSideBearing :: int
  minRightSideBearing :: int
  xMaxExtent :: int

record os2_table =
  sTypoAscender :: int
  sTypoDescender :: int
  sTypoLineGap :: int
  usWinAscent :: int
  usWinDescent :: int
  ySubscriptXSize :: int
  ySubscriptYSize :: int
  ySubscriptXOffset :: int
  ySubscriptYOffset :: int
  ySuperscriptXSize :: int
  ySuperscriptYSize :: int
  ySuperscriptXOffset :: int
  ySuperscriptYOffset :: int
  yStrikeoutSize :: int
  yStrikeoutPosition :: int
  sxHeight :: "int option"
  sCapHeight :: "int option"
  xAvgCharWidth :: int

record vhea_table =
  vhea_ascent :: int
  vhea_descent :: int
  vhea_lineGap :: int
  advanceHeightMax :: int
  minTopSideBearing :: int
  minBottomSideBearing :: int
  yMaxExtent :: int

record post_table =
  underlinePosition :: int
  underlineThickness :: int

type_synonym kern_table = "((string \<times> string) \<times> int) list option list"

datatype error =
  KeyError string
| AttributeError string
| FileNotFoundError
| TTLibError

definition scale_metrics :: "metrics \<Rightarrow> rat \<Rightarrow> metrics" where
  "scale_metrics m scale_factor =
     map (\<lambda>(glyph_name, width, lsb).
            (glyph_name, scale_int width scale_factor, scale_int lsb scale_factor)) m"

definition scale_hhea :: "hhea_table \<Rightarrow> rat \<Rightarrow> hhea_table" where
  "scale_hhea t scale_factor =
     t\<lparr>hhea_ascent := scale_int (hhea_ascent t) scale_factor,
       hhea_descent := scale_int (hhea_descent t) scale_factor,
       hhea_lineGap := scale_int (hhea_lineGap t) scale_factor,
       advanceWidthMax := scale_int (advanceWidthMax t) scale_factor,
       minLeftSideBearing := scale_int (minLeftSideBearing t) scale_factor,
       minRightSideBearing := scale_int (minRightSideBearing t) scale_factor,
       xMaxExtent := scale_int (xMaxExtent t) scale_factor\<rparr>"

definition scale_os2 :: "os2_table \<Rightarrow> rat \<Rightarrow> error + os2_table" where
  "scale_os2 t scale_factor =
     (let t1 = t\<lparr>sTypoAscender := scale_int (sTypoAscender t) scale_factor,
                  sTypoDescender := scale_int (sTypoDescender t) scale_factor,
                  sTypoLineGap := scale_int (sTypoLineGap t) scale_factor,
                  usWinAscent := scale_int (usWinAscent t) scale_factor,
                  usWinDescent := scale_int (usWinDescent t) scale_factor,
                  ySubscriptXSize := scale_int (ySubscriptXSize t) scale_factor,
                  ySubscriptYSize := scale_int (ySubscriptYSize t) scale_factor,
                  ySubscriptXOffset := scale_int (ySubscriptXOffset t) scale_factor,
                  ySubscriptYOffset := scale_int (ySubscriptYOffset t) scale_factor,
                  ySuperscriptXSize := scale_int (ySuperscriptXSize t) scale_factor,
                  ySuperscriptYSize := scale_int (ySuperscriptYSize t) scale_factor,
                  ySuperscriptXOffset := scale_int (ySuperscriptXOffset t) scale_factor,
                  ySuperscriptYOffset := scale_int (ySuperscriptYOffset t) scale_factor,
                  yStrikeoutSize := scale_int (yStrikeoutSize t) scale_factor,
                  yStrikeoutPosition := scale_int (yStrikeoutPosition t) scale_factor\<rparr>
      in case sxHeight t1 of
           None \<Rightarrow> Inl (AttributeError ''sxHeight'')
         | Some xh \<Rightarrow>
             (case sCapHeight t1 of
                None \<Rightarrow> Inl (AttributeError ''sCapHeight'')
              | Some ch \<Rightarrow>
                  Inr (t1\<lparr>sxHeight := Some (scale_int xh scale_factor),
                          sCapHeight := Some (scale_int ch scale_factor),
                          xAvgCharWidth := scale_int (xAvgCharWidth t1) scale_factor\<rparr>)))"

definition scale_vhea :: "vhea_table \<Rightarrow> rat \<Rightarrow> vhea_table" where
  "scale_vhea t scale_factor =
     t\<lparr>vhea_ascent := scale_int (vhea_ascent t) scale_factor,
       vhea_descent := scale_int (vhea_descent t) scale_factor,
       vhea_lineGap := scale_int (vhea_lineGap t) scale_factor,
       advanceHeightMax := scale_int (advanceHeightMax t) scale_factor,
       minTopSideBearing := scale_int (minTopSideBearing t) scale_factor,
       minBottomSideBearing := scale_int (minBottomSideBearing t) scale_factor,
       yMaxExtent := scale_int (yMaxExtent t) scale_factor\<rparr>"

definition scale_post :: "post_table \<Rightarrow> rat \<Rightarrow> post_table" where
  "scale_post t scale_factor =
     t\<lparr>underlinePosition := scale_int (underlinePosition t) scale_factor,
       underlineThickness := scale_int (underlineThickness t) scale_factor\<rparr>"

text \<open>\<open>for table in kern.kernTables: if hasattr(table, 'kernTable'): ...\<close>\<close>

definition scale_kern :: "kern_table \<Rightarrow> rat \<Rightarrow> kern_table" where
  "scale_kern kernTables scale_factor =
     map (\<lambda>table.
            case table of
              None \<Rightarrow> None
            | Some kernTable \<Rightarrow>
                Some (map (\<lambda>(pair, v). (pair, scale_int v scale_factor)) kernTable))
       kernTables"

section \<open>The font and \<open>scale_font\<close>\<close>

text \<open>
  A \<open>TTFont\<close> is a dict from table tags to tables: \<open>None\<close> is \<open>tag not in font\<close>, and
  \<open>font[tag]\<close> raises KeyError then.
\<close>

record 'cs font =
  CFF :: "'cs cff_table option"
  glyf :: "glyf_table option"
  hmtx :: "metrics option"
  vmtx :: "metrics option"
  head :: "bbox option"
  hhea :: "hhea_table option"
  OS2 :: "os2_table option"
  vhea :: "vhea_table option"
  post :: "post_table option"
  kern :: "kern_table option"
  GPOS :: "gpos_table option"
  name :: "name_record list option"

text \<open>The part of \<open>rename_font\<close> that updates the CFF table.\<close>

definition rename_cff :: "'cs cff_table \<Rightarrow> string \<Rightarrow> string \<Rightarrow> 'cs cff_table" where
  "rename_cff c old_family new_family =
     (let old_nospace = nospace old_family;
          new_nospace = nospace new_family
      in c\<lparr>fontNames :=
              (case fontNames c of
                 None \<Rightarrow> None
               | Some ns \<Rightarrow>
                   Some (map (\<lambda>n. if contains n old_nospace
                                    then replace n old_nospace new_nospace else n) ns)),
            FamilyName :=
              (case FamilyName c of
                 None \<Rightarrow> None
               | Some n \<Rightarrow>
                   Some (if contains n old_family then replace n old_family new_family else n)),
            FullName :=
              (case FullName c of
                 None \<Rightarrow> None
               | Some n \<Rightarrow>
                   Some (if contains n old_family then replace n old_family new_family else n))\<rparr>)"

definition rename_font :: "'cs font \<Rightarrow> string \<Rightarrow> string \<Rightarrow> 'cs font" where
  "rename_font f old_family new_family =
     (case name f of
        None \<Rightarrow> f
      | Some names \<Rightarrow>
          let f1 = f\<lparr>name := Some (rename_names old_family new_family 0 names)\<rparr>
          in case CFF f1 of
               None \<Rightarrow> f1
             | Some c \<Rightarrow> f1\<lparr>CFF := Some (rename_cff c old_family new_family)\<rparr>)"

definition scale_cff_glyphs :: "(rat \<Rightarrow> 'cs \<Rightarrow> 'cs) \<Rightarrow> 'cs font \<Rightarrow> rat \<Rightarrow> 'cs font \<times> bool" where
  "scale_cff_glyphs redraw f scale_factor =
     (case CFF f of
        None \<Rightarrow> (f, False)
      | Some c \<Rightarrow>
          (f\<lparr>CFF := Some (c\<lparr>CharStrings :=
                                map (\<lambda>(glyph_name, cs).
                                       (glyph_name,
                                        \<lparr>cs_width = None,
                                         cs_program = redraw scale_factor (cs_program cs)\<rparr>))
                                  (CharStrings c)\<rparr>)\<rparr>,
           True))"

text \<open>
  \<open>scale_font_tables\<close> is \<open>scale_font\<close> between \<open>TTFont(input_path)\<close> and
  \<open>font.save(output_path)\<close>, one step for each commented block of the source, in its order.
  \<open>if rename_from and rename_to\<close> holds when both are given and not empty.
  \<open>rename_if_requested\<close> is the block that renames, \<open>scale_outlines\<close> the block that
  scales the glyphs, and \<open>scale_metrics_tables\<close> the rest, from \<open>hmtx\<close> to \<open>GPOS\<close>.
\<close>

definition scale_outlines :: "(rat \<Rightarrow> 'cs \<Rightarrow> 'cs) \<Rightarrow> bool \<Rightarrow> 'cs font \<Rightarrow> rat \<Rightarrow> error + 'cs font" where
  "scale_outlines redraw is_cff f scale_factor =
     (if is_cff then Inr (fst (scale_cff_glyphs redraw f scale_factor))
      else case glyf f of
             None \<Rightarrow> Inl (KeyError ''glyf'')
           | Some glyf_table \<Rightarrow> Inr (f\<lparr>glyf := Some (scale_glyf glyf_table scale_factor)\<rparr>))"

definition scale_metrics_tables :: "'cs font \<Rightarrow> rat \<Rightarrow> error + 'cs font" where
  "scale_metrics_tables f scale_factor =
     (case hmtx f of
        None \<Rightarrow> Inl (KeyError ''hmtx'')
      | Some hm \<Rightarrow>
     let f1 = f\<lparr>hmtx := Some (scale_metrics hm scale_factor)\<rparr>;
         f2 = (case vmtx f1 of None \<Rightarrow> f1
               | Some vm \<Rightarrow> f1\<lparr>vmtx := Some (scale_metrics vm scale_factor)\<rparr>)
     in case head f2 of
        None \<Rightarrow> Inl (KeyError ''head'')
      | Some hd_table \<Rightarrow>
     let f3 = f2\<lparr>head := Some (scale_bbox hd_table scale_factor)\<rparr>
     in case hhea f3 of
        None \<Rightarrow> Inl (KeyError ''hhea'')
      | Some hh \<Rightarrow>
     let f4 = f3\<lparr>hhea := Some (scale_hhea hh scale_factor)\<rparr>
     in case (case OS2 f4 of None \<Rightarrow> Inr f4
              | Some os2 \<Rightarrow>
                  (case scale_os2 os2 scale_factor of
                     Inl e \<Rightarrow> Inl e
                   | Inr os2' \<Rightarrow> Inr (f4\<lparr>OS2 := Some os2'\<rparr>))) of
        Inl e \<Rightarrow> Inl e
      | Inr f5 \<Rightarrow>
     let f6 = (case vhea f5 of None \<Rightarrow> f5
               | Some vh \<Rightarrow> f5\<lparr>vhea := Some (scale_vhea vh scale_factor)\<rparr>);
         f7 = (case post f6 of None \<Rightarrow> f6
               | Some p \<Rightarrow> f6\<lparr>post := Some (scale_post p scale_factor)\<rparr>);
         f8 = (case kern f7 of None \<Rightarrow> f7
               | Some k \<Rightarrow> f7\<lparr>kern := Some (scale_kern k scale_factor)\<rparr>);
         f9 = (case GPOS f8 of None \<Rightarrow> f8
               | Some g \<Rightarrow> f8\<lparr>GPOS := Some (scale_gpos_values g scale_factor)\<rparr>)
     in Inr f9)"

definition rename_if_requested :: "'cs font \<Rightarrow> string option \<Rightarrow> string option \<Rightarrow> 'cs font" where
  "rename_if_requested f rename_from rename_to =
     (case rename_from of
        None \<Rightarrow> f
      | Some old_family \<Rightarrow>
          (case rename_to of
             None \<Rightarrow> f
           | Some new_family \<Rightarrow>
               if old_family \<noteq> [] \<and> new_family \<noteq> []
               then rename_font f old_family new_family else f))"

definition scale_font_tables ::
  "(rat \<Rightarrow> 'cs \<Rightarrow> 'cs) \<Rightarrow> 'cs font \<Rightarrow> rat \<Rightarrow> string option \<Rightarrow> string option \<Rightarrow> error + 'cs font" where
  "scale_font_tables redraw f scale_factor rename_from rename_to =
     (let is_cff = (CFF f \<noteq> None);
          f1 = rename_if_requested f rename_from rename_to
      in case scale_outlines redraw is_cff f1 scale_factor of
           Inl e \<Rightarrow> Inl e
         | Inr f2 \<Rightarrow> scale_metrics_tables f2 scale_factor)"

section \<open>Files and the batch loop of \<open>main\<close>\<close>

text \<open>
  The file system maps a path string to a file, which the font library parses into a font
  or refuses. \<open>TTFont fs input_path\<close> is \<open>TTFont(input_path)\<close>; \<open>font.save\<close> writes the file
  and is taken to succeed. The progress lines that \<open>scale_font\<close> prints are left out.
\<close>

datatype 'cs font_file = NotAFont | FontFile "'cs font"

type_synonym 'cs filesystem = "string \<rightharpoonup> 'cs font_file"

definition TTFont :: "'cs filesystem \<Rightarrow> string \<Rightarrow> error + 'cs font" where
  "TTFont fs input_path =
     (case fs input_path of
        None \<Rightarrow> Inl FileNotFoundError
      | Some NotAFont \<Rightarrow> Inl TTLibError
      | Some (FontFile f) \<Rightarrow> Inr f)"

definition scale_font ::
  "(rat \<Rightarrow> 'cs \<Rightarrow> 'cs) \<Rightarrow> 'cs filesystem \<Rightarrow> string \<Rightarrow> string \<Rightarrow> rat \<Rightarrow>
     string option \<Rightarrow> string option \<Rightarrow> error + 'cs filesystem" where
  "scale_font redraw fs input_path output_path scale_factor rename_from rename_to =
     (case TTFont fs input_path of
        Inl e \<Rightarrow> Inl e
      | Inr f \<Rightarrow>
          (case scale_font_tables redraw f scale_factor rename_from rename_to of
             Inl e \<Rightarrow> Inl e
           | Inr f' \<Rightarrow> Inr (fs(output_path \<mapsto> FontFile f'))))"

text \<open>
  A \<open>Path\<close> with its \<open>parent\<close>, \<open>stem\<close> and \<open>suffix\<close> (here \<open>path_suffix\<close>);
  \<open>str_path\<close> is \<open>str(font_path)\<close>, and \<open>output_path\<close> the string of the path computed at
  the head of the loop from \<open>args.suffix\<close>.
\<close>

record path =
  parent :: string
  stem :: string
  path_suffix :: string

definition str_path :: "path \<Rightarrow> string" where
  "str_path p = parent p @ ''/'' @ stem p @ path_suffix p"

definition output_path :: "string \<Rightarrow> path \<Rightarrow> string" where
  "output_path args_suffix font_path =
     (if args_suffix \<noteq> []
      then parent font_path @ ''/'' @ stem font_path @ args_suffix @ path_suffix font_path
      else str_path font_path)"

datatype output_line =
  Error_processing path error
| Blank_line
| All_fonts_processed

text \<open>
  The loop \<open>for font_path in font_files\<close> of \<open>main\<close>, with its \<open>try\<close>/\<open>except Exception\<close>:
  every \<^typ>\<open>error\<close> is an \<open>Exception\<close>. It returns the file system and the lines printed.
\<close>

fun batch_loop ::
  "(rat \<Rightarrow> 'cs \<Rightarrow> 'cs) \<Rightarrow> string \<Rightarrow> rat \<Rightarrow> string option \<Rightarrow> string option \<Rightarrow>
     'cs filesystem \<Rightarrow> path list \<Rightarrow> 'cs filesystem \<times> output_line list" where
  "batch_loop redraw args_suffix args_scale rename_from rename_to fs [] = (fs, [])"
| "batch_loop redraw args_suffix args_scale rename_from rename_to fs (font_path # font_files) =
     (case scale_font redraw fs (str_path font_path) (output_path args_suffix font_path)
             args_scale rename_from rename_to of
        Inl e \<Rightarrow>
          (let (fs', out) =
                 batch_loop redraw args_suffix args_scale rename_from rename_to fs font_files
           in (fs', Error_processing font_path e # out))
      | Inr fs1 \<Rightarrow>
          (let (fs', out) =
                 batch_loop redraw args_suffix args_scale rename_from rename_to fs1 font_files
           in (fs', Blank_line # out)))"

definition main_batch ::
  "(rat \<Rightarrow> 'cs \<Rightarrow> 'cs) \<Rightarrow> string \<Rightarrow> rat \<Rightarrow> string option \<Rightarrow> string option \<Rightarrow>
     'cs filesystem \<Rightarrow> path list \<Rightarrow> 'cs filesystem \<times> output_line list" where
  "main_batch redraw args_suffix args_scale rename_from rename_to fs font_files =
     (let (fs', out) =
            batch_loop redraw args_suffix args_scale rename_from rename_to fs font_files
      in (fs', out @ [All_fonts_processed]))"

section \<open>The specification's notions\<close>

text \<open>
  \<open>truncates_toward_zero p r\<close>: the integer \<open>r\<close> is \<open>p\<close> with its fraction dropped.
  Rounding to the nearest integer is \<open>round_half_even\<close> or \<open>round_half_away\<close> above.
\<close>

definition truncates_toward_zero :: "rat \<Rightarrow> int \<Rightarrow> bool" where
  "truncates_toward_zero p r \<longleftrightarrow>
     \<bar>of_int r\<bar> \<le> \<bar>p\<bar> \<and> \<bar>p\<bar> < \<bar>of_int r\<bar> + 1 \<and> 0 \<le> of_int r * p"

text \<open>
  The bounding box recomputed from a glyph's points: for a simple glyph its coordinates,
  for a composite glyph the points of its sub-components, each moved by the component's
  offset (\<open>depth\<close> bounds the nesting of composites).
\<close>

definition bounds_of_points :: "(int \<times> int) list \<Rightarrow> bbox option" where
  "bounds_of_points pts =
     (case pts of
        [] \<Rightarrow> None
      | p # ps \<Rightarrow>
          Some \<lparr>xMin = fold min (map fst ps) (fst p), yMin = fold min (map snd ps) (snd p),
                xMax = fold max (map fst ps) (fst p), yMax = fold max (map snd ps) (snd p)\<rparr>)"

fun glyph_points :: "nat \<Rightarrow> glyf_table \<Rightarrow> glyph \<Rightarrow> (int \<times> int) list" where
  "glyph_points 0 glyf_table g = (if isComposite g then [] else coordinates g)"
| "glyph_points (Suc depth) glyf_table g =
     (if isComposite g
      then concat
             (map (\<lambda>c. case map_of glyf_table (glyphName c) of
                          None \<Rightarrow> []
                        | Some sub \<Rightarrow>
                            map (\<lambda>(x, y).
                                   (x + (case comp_x c of None \<Rightarrow> 0 | Some dx \<Rightarrow> dx),
                                    y + (case comp_y c of None \<Rightarrow> 0 | Some dy \<Rightarrow> dy)))
                              (glyph_points depth glyf_table sub))
                (components g))
      else coordinates g)"

definition recalc_bounds :: "nat \<Rightarrow> glyf_table \<Rightarrow> glyph \<Rightarrow> bbox option" where
  "recalc_bounds depth glyf_table g = bounds_of_points (glyph_points depth glyf_table g)"

text \<open>
  The condition under which scaling a coordinate \<open>x\<close> by \<open>s\<close> and then by \<open>t\<close> comes back to
  \<open>x\<close> within one unit: the values stay exactly representable, and \<open>t\<close> undoes \<open>s\<close> without
  enlarging. With \<open>t\<close> the exact reciprocal of \<open>s\<close> the last condition is \<open>1 \<le> s\<close>.
\<close>

definition roundtrip_ok :: "int \<Rightarrow> rat \<Rightarrow> rat \<Rightarrow> bool" where
  "roundtrip_ok x s t \<longleftrightarrow>
     \<bar>x\<bar> < 2 ^ 52 \<and> \<bar>of_int x * s\<bar> < 2 ^ 52 \<and> 0 < t \<and> of_int \<bar>x\<bar> * \<bar>s * t - 1\<bar> + t \<le> 1"

text \<open>
  What scaling a positioning table means: the tree keeps its shape, a null slot stays null
  (\<open>rel_option\<close> relates \<open>None\<close> to \<open>None\<close> only), and every number that is present is
  replaced by \<open>int(v * scale_factor)\<close>. \<open>visited_scaled\<close> says so of the seven attributes
  that \<open>scale_gpos_subtable\<close> tests, \<open>subtable_scaled\<close> of every attribute of a subtable that
  holds numbers, and \<open>lookup_subtable_scaled\<close> also of the subtable that an extension wraps.
\<close>

definition value_scaled :: "rat \<Rightarrow> int option \<Rightarrow> int option \<Rightarrow> bool" where
  "value_scaled s v v' \<longleftrightarrow> v' = map_option (\<lambda>n. scale_int n s) v"

definition value_record_scaled :: "rat \<Rightarrow> value_record \<Rightarrow> value_record \<Rightarrow> bool" where
  "value_record_scaled s vr vr' \<longleftrightarrow>
     value_scaled s (XPlacement vr) (XPlacement vr') \<and>
     value_scaled s (YPlacement vr) (YPlacement vr') \<and>
     value_scaled s (XAdvance vr) (XAdvance vr') \<and>
     value_scaled s (YAdvance vr) (YAdvance vr')"

definition anchor_scaled :: "rat \<Rightarrow> anchor \<Rightarrow> anchor \<Rightarrow> bool" where
  "anchor_scaled s a a' \<longleftrightarrow>
     value_scaled s (XCoordinate a) (XCoordinate a') \<and>
     value_scaled s (YCoordinate a) (YCoordinate a')"

definition pair_value_scaled :: "rat \<Rightarrow> pair_value \<Rightarrow> pair_value \<Rightarrow> bool" where
  "pair_value_scaled s pv pv' \<longleftrightarrow>
     rel_option (value_record_scaled s) (Value1 pv) (Value1 pv') \<and>
     rel_option (value_record_scaled s) (Value2 pv) (Value2 pv')"

definition entry_exit_scaled :: "rat \<Rightarrow> entry_exit_record \<Rightarrow> entry_exit_record \<Rightarrow> bool" where
  "entry_exit_scaled s r r' \<longleftrightarrow>
     rel_option (anchor_scaled s) (EntryAnchor r) (EntryAnchor r') \<and>
     rel_option (anchor_scaled s) (ExitAnchor r) (ExitAnchor r')"

definition visited_scaled :: "rat \<Rightarrow> 'a subtable_scheme \<Rightarrow> 'b subtable_scheme \<Rightarrow> bool" where
  "visited_scaled s st st' \<longleftrightarrow>
     rel_option (list_all2 (value_record_scaled s)) (SinglePos st) (SinglePos st') \<and>
     rel_option (list_all2 (rel_option (list_all2 (pair_value_scaled s))))
       (PairSet st) (PairSet st') \<and>
     rel_option (list_all2 (list_all2 (pair_value_scaled s)))
       (Class1Record st) (Class1Record st') \<and>
     rel_option (list_all2 (list_all2 (rel_option (anchor_scaled s))))
       (BaseArray st) (BaseArray st') \<and>
     rel_option (list_all2 (rel_option (anchor_scaled s))) (MarkArray st) (MarkArray st') \<and>
     rel_option (list_all2 (list_all2 (rel_option (anchor_scaled s))))
       (Mark2Array st) (Mark2Array st') \<and>
     rel_option (list_all2 (list_all2 (list_all2 (rel_option (anchor_scaled s)))))
       (LigatureArray st) (LigatureArray st')"

definition subtable_scaled :: "rat \<Rightarrow> 'a subtable_scheme \<Rightarrow> 'b subtable_scheme \<Rightarrow> bool" where
  "subtable_scaled s st st' \<longleftrightarrow>
     visited_scaled s st st' \<and>
     rel_option (list_all2 (value_record_scaled s)) (Value st) (Value st') \<and>
     rel_option (list_all2 (rel_option (anchor_scaled s))) (Mark1Array st) (Mark1Array st') \<and>
     rel_option (list_all2 (entry_exit_scaled s)) (EntryExitRecord st) (EntryExitRecord st')"

definition lookup_subtable_scaled :: "rat \<Rightarrow> lookup_subtable \<Rightarrow> lookup_subtable \<Rightarrow> bool" where
  "lookup_subtable_scaled s st st' \<longleftrightarrow>
     subtable_scaled s st st' \<and>
     rel_option (subtable_scaled s) (ExtSubTable st) (ExtSubTable st')"

text \<open>
  The four numbers that identify a naming record, and what renaming makes of one record:
  every occurrence of the old family name replaced, or else every occurrence of the old
  name without its spaces; a record that cannot be decoded is left as it is.
\<close>

definition record_ids :: "name_record \<Rightarrow> nat \<times> nat \<times> nat \<times> nat" where
  "record_ids r = (nameID r, platformID r, platEncID r, langID r)"

definition rename_one :: "string \<Rightarrow> string \<Rightarrow> name_record \<Rightarrow> name_record" where
  "rename_one old_family new_family r =
     (case toUnicode r of
        None \<Rightarrow> r
      | Some t \<Rightarrow>
          if contains t old_family
          then r\<lparr>toUnicode := Some (replace t old_family new_family)\<rparr>
          else if contains t (nospace old_family)
          then r\<lparr>toUnicode := Some (replace t (nospace old_family) (nospace new_family))\<rparr>
          else r)"

section \<open>Example glyphs\<close>

definition ex_simple_glyph :: glyph where
  "ex_simple_glyph =
     \<lparr>numberOfContours = 1, components = [], coordinates = [(1, 7), (3, - 7)],
      bounds = Some \<lparr>xMin = 1, yMin = - 7, xMax = 3, yMax = 7\<rparr>\<rparr>"

definition ex_composite_glyph :: glyph where
  "ex_composite_glyph =
     \<lparr>numberOfContours = - 1,
      components = [\<lparr>glyphName = ''A'', comp_x = Some 1, comp_y = Some 1\<rparr>],
      coordinates = [],
      bounds = Some \<lparr>xMin = 2, yMin = - 6, xMax = 4, yMax = 8\<rparr>\<rparr>"

definition ex_glyf :: glyf_table where
  "ex_glyf = [(''A'', ex_simple_glyph), (''B'', ex_composite_glyph)]"

section \<open>Fonts whose numbers a binary64 float holds exactly\<close>

text \<open>
  \<open>font_in_range f\<close>: every number stored in the tables that \<open>scale_font\<close> rewrites is
  below \<open>2^53\<close> in magnitude, so that its conversion to a float is exact. The fields of a
  font file are at most 32 bits wide.
\<close>

definition in_range :: "int \<Rightarrow> bool" where
  "in_range v \<longleftrightarrow> \<bar>v\<bar> < 2 ^ 53"

definition opt_in_range :: "int option \<Rightarrow> bool" where
  "opt_in_range v = (case v of None \<Rightarrow> True | Some n \<Rightarrow> in_range n)"

definition bbox_in_range :: "bbox \<Rightarrow> bool" where
  "bbox_in_range b \<longleftrightarrow>
     in_range (xMin b) \<and> in_range (yMin b) \<and> in_range (xMax b) \<and> in_range (yMax b)"

definition glyph_in_range :: "glyph \<Rightarrow> bool" where
  "glyph_in_range g \<longleftrightarrow>
     list_all (\<lambda>(x, y). in_range x \<and> in_range y) (coordinates g) \<and>
     list_all (\<lambda>c. opt_in_range (comp_x c) \<and> opt_in_range (comp_y c)) (components g) \<and>
     (case bounds g of None \<Rightarrow> True | Some b \<Rightarrow> bbox_in_range b)"

definition metrics_in_range :: "metrics \<Rightarrow> bool" where
  "metrics_in_range m = list_all (\<lambda>(glyph_name, width, lsb). in_range width \<and> in_range lsb) m"

definition hhea_in_range :: "hhea_table \<Rightarrow> bool" where
  "hhea_in_range t \<longleftrightarrow>
     in_range (hhea_ascent t) \<and> in_range (hhea_descent t) \<and> in_range (hhea_lineGap t) \<and>
     in_range (advanceWidthMax t) \<and> in_range (minLeftSideBearing t) \<and>
     in_range (minRightSideBearing t) \<and> in_range (xMaxExtent t)"

definition os2_in_range :: "os2_table \<Rightarrow> bool" where
  "os2_in_range t \<longleftrightarrow>
     in_range (sTypoAscender t) \<and> in_range (sTypoDescender t) \<and> in_range (sTypoLineGap t) \<and>
     in_range (usWinAscent t) \<and> in_range (usWinDescent t) \<and>
     in_range (ySubscriptXSize t) \<and> in_range (ySubscriptYSize t) \<and>
     in_range (ySubscriptXOffset t) \<and> in_range (ySubscriptYOffset t) \<and>
     in_range (ySuperscriptXSize t) \<and> in_range (ySuperscriptYSize t) \<and>
     in_range (ySuperscriptXOffset t) \<and> in_range (ySuperscriptYOffset t) \<and>
     in_range (yStrikeoutSize t) \<and> in_range (yStrikeoutPosition t) \<and>
     opt_in_range (sxHeight t) \<and> opt_in_range (sCapHeight t) \<and> in_range (xAvgCharWidth t)"

definition vhea_in_range :: "vhea_table \<Rightarrow> bool" where
  "vhea_in_range t \<longleftrightarrow>
     in_range (vhea_ascent t) \<and> in_range (vhea_descent t) \<and> in_range (vhea_lineGap t) \<and>
     in_range (advanceHeightMax t) \<and> in_range (minTopSideBearing t) \<and>
     in_range (minBottomSideBearing t) \<and> in_range (yMaxExtent t)"

definition post_in_range :: "post_table \<Rightarrow> bool" where
  "post_in_range t \<longleftrightarrow> in_range (underlinePosition t) \<and> in_range (underlineThickness t)"

definition kern_in_range :: "kern_table \<Rightarrow> bool" where
  "kern_in_range kernTables =
     list_all (\<lambda>table. case table of None \<Rightarrow> True
                        | Some kernTable \<Rightarrow> list_all (\<lambda>(pair, v). in_range v) kernTable)
       kernTables"

definition value_record_in_range :: "value_record \<Rightarrow> bool" where
  "value_record_in_range vr \<longleftrightarrow>
     opt_in_range (XPlacement vr) \<and> opt_in_range (YPlacement vr) \<and>
     opt_in_range (XAdvance vr) \<and> opt_in_range (YAdvance vr)"

definition anchor_slot_in_range :: "anchor option \<Rightarrow> bool" where
  "anchor_slot_in_range slot =
     (case slot of None \<Rightarrow> True
      | Some a \<Rightarrow> opt_in_range (XCoordinate a) \<and> opt_in_range (YCoordinate a))"

definition pair_value_in_range :: "pair_value \<Rightarrow> bool" where
  "pair_value_in_range pv \<longleftrightarrow>
     (case Value1 pv of None \<Rightarrow> True | Some vr \<Rightarrow> value_record_in_range vr) \<and>
     (case Value2 pv of None \<Rightarrow> True | Some vr \<Rightarrow> value_record_in_range vr)"

definition subtable_in_range :: "'a subtable_scheme \<Rightarrow> bool" where
  "subtable_in_range st \<longleftrightarrow>
     (case SinglePos st of None \<Rightarrow> True | Some rs \<Rightarrow> list_all value_record_in_range rs) \<and>
     (case PairSet st of None \<Rightarrow> True
      | Some pair_sets \<Rightarrow>
          list_all (\<lambda>pair_set. case pair_set of None \<Rightarrow> True
                                | Some pvs \<Rightarrow> list_all pair_value_in_range pvs) pair_sets) \<and>
     (case Class1Record st of None \<Rightarrow> True
      | Some c1 \<Rightarrow> list_all (list_all pair_value_in_range) c1) \<and>
     (case BaseArray st of None \<Rightarrow> True
      | Some rs \<Rightarrow> list_all (list_all anchor_slot_in_range) rs) \<and>
     (case MarkArray st of None \<Rightarrow> True | Some rs \<Rightarrow> list_all anchor_slot_in_range rs) \<and>
     (case Mark2Array st of None \<Rightarrow> True
      | Some rs \<Rightarrow> list_all (list_all anchor_slot_in_range) rs) \<and>
     (case LigatureArray st of None \<Rightarrow> True
      | Some ls \<Rightarrow> list_all (list_all (list_all anchor_slot_in_range)) ls)"

definition gpos_in_range :: "gpos_table \<Rightarrow> bool" where
  "gpos_in_range t =
     (case LookupList t of None \<Rightarrow> True
      | Some lookups \<Rightarrow> list_all (list_all subtable_in_range) lookups)"

definition font_in_range :: "'cs font \<Rightarrow> bool" where
  "font_in_range f \<longleftrightarrow>
     (case glyf f of None \<Rightarrow> True
      | Some glyf_table \<Rightarrow> list_all (\<lambda>(glyph_name, g). glyph_in_range g) glyf_table) \<and>
     (case hmtx f of None \<Rightarrow> True | Some m \<Rightarrow> metrics_in_range m) \<and>
     (case vmtx f of None \<Rightarrow> True | Some m \<Rightarrow> metrics_in_range m) \<and>
     (case head f of None \<Rightarrow> True | Some b \<Rightarrow> bbox_in_range b) \<and>
     (case hhea f of None \<Rightarrow> True | Some t \<Rightarrow> hhea_in_range t) \<and>
     (case OS2 f of None \<Rightarrow> True | Some t \<Rightarrow> os2_in_range t) \<and>
     (case vhea f of None \<Rightarrow> True | Some t \<Rightarrow> vhea_in_range t) \<and>
     (case post f of None \<Rightarrow> True | Some t \<Rightarrow> post_in_range t) \<and>
     (case kern f of None \<Rightarrow> True | Some k \<Rightarrow> kern_in_range k) \<and>
     (case GPOS f of None \<Rightarrow> True | Some g \<Rightarrow> gpos_in_range g)"

section \<open>Example fonts\<close>

definition ex_hhea :: hhea_table where
  "ex_hhea =
     \<lparr>hhea_ascent = 1, hhea_descent = - 7, hhea_lineGap = 0, advanceWidthMax = 600,
      minLeftSideBearing = - 3, minRightSideBearing = 3, xMaxExtent = 7\<rparr>"

definition ex_os2 :: os2_table where
  "ex_os2 =
     \<lparr>sTypoAscender = 7, sTypoDescender = - 7, sTypoLineGap = 0, usWinAscent = 9,
      usWinDescent = 3, ySubscriptXSize = 5, ySubscriptYSize = 6, ySubscriptXOffset = 0,
      ySubscriptYOffset = 1, ySuperscriptXSize = 5, ySuperscriptYSize = 6,
      ySuperscriptXOffset = 0, ySuperscriptYOffset = 3, yStrikeoutSize = 1,
      yStrikeoutPosition = 2, sxHeight = Some 5, sCapHeight = Some 7, xAvgCharWidth = 600\<rparr>"

definition ex_subtable :: lookup_subtable where
  "ex_subtable =
     \<lparr>SinglePos = None,
      PairSet = Some [None,
                      Some [\<lparr>Value1 = Some \<lparr>XPlacement = None, YPlacement = None,
                                              XAdvance = Some (- 7), YAdvance = Some 0\<rparr>,
                             Value2 = None\<rparr>]],
      Class1Record = None,
      BaseArray = Some [[None, Some \<lparr>XCoordinate = Some 3, YCoordinate = Some (- 7)\<rparr>]],
      MarkArray = Some [None, Some \<lparr>XCoordinate = Some 1, YCoordinate = Some 7\<rparr>],
      Mark2Array = Some [[Some \<lparr>XCoordinate = Some 7, YCoordinate = Some 1\<rparr>, None]],
      LigatureArray = Some [[[None, Some \<lparr>XCoordinate = Some 3, YCoordinate = Some 3\<rparr>]]],
      Value = None, Mark1Array = None, EntryExitRecord = None, ExtSubTable = None\<rparr>"

text \<open>
  A positioning table as the font library loads it, with two lookups. The first holds a
  single adjustment, whose one value record is the attribute \<open>Value\<close>. The second holds a
  mark-to-mark attachment: the anchor of the attaching mark under \<open>Mark1Array\<close>, and under
  \<open>Mark2Array\<close> the anchors of the mark attached to, of which the first slot is null.
\<close>

definition ex_single_adjustment :: lookup_subtable where
  "ex_single_adjustment =
     \<lparr>SinglePos = None, PairSet = None, Class1Record = None, BaseArray = None,
      MarkArray = None, Mark2Array = None, LigatureArray = None,
      Value = Some [\<lparr>XPlacement = None, YPlacement = None,
                      XAdvance = Some (- 7), YAdvance = None\<rparr>],
      Mark1Array = None, EntryExitRecord = None, ExtSubTable = None\<rparr>"

definition ex_mark_to_mark :: lookup_subtable where
  "ex_mark_to_mark =
     \<lparr>SinglePos = None, PairSet = None, Class1Record = None, BaseArray = None,
      MarkArray = None,
      Mark2Array = Some [[None, Some \<lparr>XCoordinate = Some 7, YCoordinate = Some 1\<rparr>]],
      LigatureArray = None,
      Value = None,
      Mark1Array = Some [Some \<lparr>XCoordinate = Some 3, YCoordinate = Some 7\<rparr>],
      EntryExitRecord = None, ExtSubTable = None\<rparr>"

definition ex_gpos :: gpos_table where
  "ex_gpos = \<lparr>LookupList = Some [[ex_single_adjustment], [ex_mark_to_mark]]\<rparr>"

definition ex_names :: "name_record list" where
  "ex_names =
     [\<lparr>nameID = 4, platformID = 3, platEncID = 1, langID = 1033,
       toUnicode = Some ''Reddit Mono Regular''\<rparr>,
      \<lparr>nameID = 6, platformID = 3, platEncID = 1, langID = 1033,
       toUnicode = Some ''RedditMono-Regular''\<rparr>,
      \<lparr>nameID = 1, platformID = 1, platEncID = 0, langID = 0, toUnicode = None\<rparr>,
      \<lparr>nameID = 5, platformID = 3, platEncID = 1, langID = 1033,
       toUnicode = Some ''Version 1.0''\<rparr>]"

definition ex_font :: "nat font" where
  "ex_font =
     \<lparr>CFF = None, glyf = Some ex_glyf,
      hmtx = Some [(''A'', 600, 1), (''B'', 600, - 7)],
      vmtx = None,
      head = Some \<lparr>xMin = 1, yMin = - 7, xMax = 4, yMax = 8\<rparr>,
      hhea = Some ex_hhea, OS2 = Some ex_os2, vhea = None,
      post = Some \<lparr>underlinePosition = - 1, underlineThickness = 1\<rparr>,
      kern = Some [Some [((''A'', ''B''), - 7)], None],
      GPOS = Some \<lparr>LookupList = Some [[ex_subtable]]\<rparr>,
      name = Some ex_names\<rparr>"

text \<open>A font with neither a \<open>CFF\<close> nor a \<open>glyf\<close> table, such as one with CFF2 outlines.\<close>

definition ex_font_no_outlines :: "nat font" where
  "ex_font_no_outlines = ex_font\<lparr>glyf := None\<rparr>"

text \<open>A font with an \<open>OS/2\<close> table of version 1, which has no \<open>sxHeight\<close>.\<close>

definition ex_font_os2_v1 :: "nat font" where
  "ex_font_os2_v1 = ex_font\<lparr>OS2 := Some (ex_os2\<lparr>sxHeight := None, sCapHeight := None\<rparr>)\<rparr>"

text \<open>
  A font with CFF outlines: the glyph \<open>A\<close> has the width \<open>600\<close> in its charstring, the
  glyph \<open>B\<close> has the default width of the font.
\<close>

definition ex_cff_font :: "nat font" where
  "ex_cff_font =
     ex_font\<lparr>CFF := Some \<lparr>fontNames = Some [''RedditMono-Regular''],
                            FamilyName = Some ''Reddit Mono'',
                            FullName = Some ''Reddit Mono Regular'',
                            CharStrings =
                              [(''A'', \<lparr>cs_width = Some 600, cs_program = 1\<rparr>),
                               (''B'', \<lparr>cs_width = None, cs_program = 2\<rparr>)]\<rparr>,
             glyf := None\<rparr>"

text \<open>Three font files, the second of which the font library cannot load.\<close>

definition ex_paths :: "path list" where
  "ex_paths =
     [\<lparr>parent = ''fonts/mono/ttf'', stem = ''RedditMono-Bold'', path_suffix = ''.ttf''\<rparr>,
      \<lparr>parent = ''fonts/mono/ttf'', stem = ''RedditMono-Light'', path_suffix = ''.ttf''\<rparr>,
      \<lparr>parent = ''fonts/mono/ttf'', stem = ''RedditMono-Regular'', path_suffix = ''.ttf''\<rparr>]"

definition ex_fs :: "nat filesystem" where
  "ex_fs =
     [''fonts/mono/ttf/RedditMono-Bold.ttf'' \<mapsto> FontFile ex_font,
      ''fonts/mono/ttf/RedditMono-Light.ttf'' \<mapsto> NotAFont,
      ''fonts/mono/ttf/RedditMono-Regular.ttf'' \<mapsto> FontFile ex_font]"

section \<open>Truncation and binary64 rounding\<close>

text \<open>
  \<open>ilog2\<close> is the binary exponent, so that \<open>fl\<close> rounds to 53 significant bits.
\<close>

lemma pow2_le_of_int:
  assumes "(2::int) ^ k \<le> n"
  shows "(2::rat) ^ k \<le> of_int n"
proof -
  from assms have "rat_of_int (2 ^ k) \<le> of_int n"
    by (subst of_int_le_iff)
  then show ?thesis by simp
qed

lemma of_int_le_pow2:
  assumes "n \<le> (2::int) ^ k"
  shows "rat_of_int n \<le> 2 ^ k"
proof -
  from assms have "rat_of_int n \<le> of_int (2 ^ k)"
    by (subst of_int_le_iff)
  then show ?thesis by simp
qed

lemma ilog2_bounds:
  assumes "0 < q"
  shows "pow2 (ilog2 q) \<le> q \<and> q < pow2 (ilog2 q + 1)"
proof (cases "1 \<le> q")
  case True
  define n where "n = \<lfloor>q\<rfloor>"
  have n: "0 < n" "of_int n \<le> q" "q < of_int (n + 1)"
    using True unfolding n_def by (simp, linarith, simp, linarith)
  from bitlen_bounds [OF n(1)]
  have lo: "2 ^ nat (bitlen n - 1) \<le> n" and hi: "n + 1 \<le> 2 ^ nat (bitlen n)"
    by simp_all
  have b: "1 \<le> bitlen n"
    using n(1) by (simp add: bitlen_alt_def)
  from pow2_le_of_int [OF lo] n(2) have 1: "2 ^ nat (bitlen n - 1) \<le> q"
    by (rule order_trans)
  from n(3) of_int_le_pow2 [OF hi] have 2: "q < 2 ^ nat (bitlen n)"
    by (rule less_le_trans)
  from True b 1 2 show ?thesis
    by (simp add: ilog2_def pow2_def n_def [symmetric])
next
  case False
  define r where "r = 1 / q"
  define m where "m = \<lceil>r\<rceil> - 1"
  have r: "1 < r"
    using assms False by (simp add: r_def)
  then have m: "0 < m" "of_int m < r" "r \<le> of_int (m + 1)"
    unfolding m_def by (simp_all add: less_ceiling_iff) linarith+
  from bitlen_bounds [OF m(1)]
  have lo: "2 ^ nat (bitlen m - 1) \<le> m" and hi: "m + 1 \<le> 2 ^ nat (bitlen m)"
    by simp_all
  have b: "1 \<le> bitlen m"
    using m(1) by (simp add: bitlen_alt_def)
  from m(3) of_int_le_pow2 [OF hi] have "r \<le> 2 ^ nat (bitlen m)"
    by (rule order_trans)
  then have 1: "1 / 2 ^ nat (bitlen m) \<le> q"
    using assms by (simp add: r_def field_simps)
  from pow2_le_of_int [OF lo] m(2) have "2 ^ nat (bitlen m - 1) < r"
    by (rule le_less_trans)
  then have 2: "q < 1 / 2 ^ nat (bitlen m - 1)"
    using assms by (simp add: r_def field_simps)
  have e: "ilog2 q = - bitlen m"
    using False by (simp add: ilog2_def m_def r_def)
  have "pow2 (- bitlen m) = 1 / 2 ^ nat (bitlen m)"
    using b by (simp add: pow2_def)
  moreover have "pow2 (- bitlen m + 1) = 1 / 2 ^ nat (bitlen m - 1)"
  proof (cases "bitlen m = 1")
    case True
    then show ?thesis by (simp add: pow2_def)
  next
    case False
    with b have "\<not> 0 \<le> - bitlen m + 1" "nat (- (- bitlen m + 1)) = nat (bitlen m - 1)"
      by simp_all
    then show ?thesis
      by (simp only: pow2_def if_False)
  qed
  ultimately show ?thesis
    using 1 2 by (simp only: e)
qed


lemma py_int_truncates: "truncates_toward_zero q (py_int q)"
proof (cases "q < 0")
  case True
  have "rat_of_int \<lfloor>- q\<rfloor> \<le> - q" "- q < rat_of_int \<lfloor>- q\<rfloor> + 1"
    by linarith+
  moreover have "0 \<le> rat_of_int \<lfloor>- q\<rfloor>"
    using True by simp
  moreover from this have "0 \<le> rat_of_int \<lfloor>- q\<rfloor> * (- q)"
    using True by (intro mult_nonneg_nonneg) simp_all
  ultimately show ?thesis
    using True by (simp add: truncates_toward_zero_def py_int_def)
next
  case False
  have "rat_of_int \<lfloor>q\<rfloor> \<le> q" "q < rat_of_int \<lfloor>q\<rfloor> + 1"
    by linarith+
  moreover have "0 \<le> rat_of_int \<lfloor>q\<rfloor>"
    using False by simp
  moreover from this have "0 \<le> rat_of_int \<lfloor>q\<rfloor> * q"
    using False by (intro mult_nonneg_nonneg) simp_all
  ultimately show ?thesis
    using False by (simp add: truncates_toward_zero_def py_int_def)
qed

lemma py_int_ge: "of_int m \<le> q \<Longrightarrow> m \<le> py_int q"
  unfolding py_int_def by (auto simp: le_floor_iff; linarith)

lemma py_int_le: "q \<le> of_int m \<Longrightarrow> py_int q \<le> m"
  unfolding py_int_def by (auto simp: floor_le_iff; linarith)

lemma round_half_even_ge: "of_int m \<le> y \<Longrightarrow> m \<le> round_half_even y"
  unfolding round_half_even_def Let_def by (auto simp: le_floor_iff; linarith)

lemma round_half_even_le: "y \<le> of_int m \<Longrightarrow> round_half_even y \<le> m"
  unfolding round_half_even_def Let_def by (auto simp: le_floor_iff; linarith)

lemma round_half_even_of_int [simp]: "round_half_even (of_int k) = k"
  by (simp add: round_half_even_def)

lemma floor_rat_numeral_div [simp]:
  "\<lfloor>numeral a / numeral b :: rat\<rfloor> = numeral a div numeral b"
  "\<lfloor>- numeral a / numeral b :: rat\<rfloor> = - numeral a div numeral b"
  "\<lfloor>- (numeral a / numeral b) :: rat\<rfloor> = - numeral a div numeral b"
  "\<lfloor>1 / numeral b :: rat\<rfloor> = 1 div numeral b"
  using floor_divide_of_int_eq [of "numeral a" "numeral b", where ?'a = rat]
    floor_divide_of_int_eq [of "- numeral a" "numeral b", where ?'a = rat]
    floor_divide_of_int_eq [of 1 "numeral b", where ?'a = rat]
  by simp_all

text \<open>The exponent of a number below \<open>2^(n+1)\<close> is at most \<open>n\<close>.\<close>

lemma ilog2_le:
  assumes "0 < q" "q < 2 ^ Suc n"
  shows "ilog2 q \<le> int n"
proof (cases "1 \<le> q")
  case True
  have "\<lfloor>q\<rfloor> < 2 ^ Suc n"
    using assms(2) by (simp add: floor_less_iff)
  then have "bitlen \<lfloor>q\<rfloor> \<le> int (Suc n)"
    unfolding bitlen_le_iff_power nat_int by simp
  with True show ?thesis
    by (simp add: ilog2_def)
next
  case False
  with bitlen_nonneg [of "\<lceil>1 / q\<rceil> - 1"] show ?thesis
    by (simp add: ilog2_def)
qed

text \<open>Below \<open>2^53\<close> rounding to binary64 never crosses an integer.\<close>

lemma fl_between:
  assumes "\<bar>q\<bar> < 2 ^ 53"
  shows "of_int \<lfloor>q\<rfloor> \<le> fl q \<and> fl q \<le> of_int \<lceil>q\<rceil>"
proof (cases "q = 0")
  case True
  then show ?thesis by (simp add: fl_def)
next
  case False
  define p where "p = 52 - ilog2 \<bar>q\<bar>"
  define P :: int where "P = 2 ^ nat p"
  have "ilog2 \<bar>q\<bar> \<le> int 52"
    using assms False by (intro ilog2_le) simp_all
  then have "0 \<le> p"
    by (simp add: p_def)
  then have P: "pow2 p = of_int P" "0 < P"
    by (simp_all add: pow2_def P_def)
  have flq: "fl q = of_int (round_half_even (q * of_int P)) / of_int P"
    using False by (simp add: fl_def p_def [symmetric] P Let_def)
  have "of_int (\<lfloor>q\<rfloor> * P) \<le> q * of_int P"
    using P(2) by simp
  then have lo: "\<lfloor>q\<rfloor> * P \<le> round_half_even (q * of_int P)"
    by (rule round_half_even_ge)
  have "q * of_int P \<le> of_int (\<lceil>q\<rceil> * P)"
    using P(2) by simp
  then have hi: "round_half_even (q * of_int P) \<le> \<lceil>q\<rceil> * P"
    by (rule round_half_even_le)
  have "(of_int \<lfloor>q\<rfloor> :: rat) = of_int (\<lfloor>q\<rfloor> * P) / of_int P"
    using P(2) by simp
  also have "\<dots> \<le> fl q"
    unfolding flq using lo P(2)
    by (intro divide_right_mono; (subst of_int_le_iff)?; simp)
  finally have A: "of_int \<lfloor>q\<rfloor> \<le> fl q" .
  have "fl q \<le> of_int (\<lceil>q\<rceil> * P) / of_int P"
    unfolding flq using hi P(2)
    by (intro divide_right_mono; (subst of_int_le_iff)?; simp)
  also have "\<dots> = of_int \<lceil>q\<rceil>"
    using P(2) by simp
  finally show ?thesis
    using A by simp
qed

text \<open>A number with at most \<open>53\<close> significant bits is a binary64 number.\<close>

lemma fl_exact:
  assumes m: "q * 2 ^ k = of_int m" and k: "k \<le> 52" and q: "\<bar>q\<bar> < 2 ^ (53 - k)"
  shows "fl q = q"
proof (cases "q = 0")
  case True
  then show ?thesis by (simp add: fl_def)
next
  case False
  define p where "p = 52 - ilog2 \<bar>q\<bar>"
  have "53 - k = Suc (52 - k)"
    using k by simp
  with q have "\<bar>q\<bar> < 2 ^ Suc (52 - k)"
    by (simp only:)
  with False have "ilog2 \<bar>q\<bar> \<le> int (52 - k)"
    by (intro ilog2_le) simp_all
  then have p: "int k \<le> p"
    using k by (simp add: p_def)
  define j where "j = nat p - k"
  have pj: "nat p = k + j"
    using p by (simp add: j_def)
  have pow: "pow2 p = 2 ^ k * 2 ^ j"
    using p by (simp add: pow2_def pj power_add)
  have "q * pow2 p = of_int (m * 2 ^ j)"
    by (simp add: pow m [symmetric])
  then have "round_half_even (q * pow2 p) = m * 2 ^ j"
    by (simp only: round_half_even_of_int)
  then have "fl q = of_int (m * 2 ^ j) / (2 ^ k * 2 ^ j)"
    using False by (simp add: fl_def p_def [symmetric] Let_def pow)
  also have "\<dots> = q"
    by (simp add: m [symmetric])
  finally show ?thesis .
qed

lemma abs_rat_of_int_less:
  assumes "\<bar>x\<bar> < 2 ^ n"
  shows "\<bar>rat_of_int x\<bar> < 2 ^ n"
proof -
  from assms have "rat_of_int \<bar>x\<bar> < rat_of_int (2 ^ n)"
    by (subst of_int_less_iff)
  then show ?thesis by simp
qed

lemma float_of_int_exact: "\<bar>x\<bar> < 2 ^ 53 \<Longrightarrow> float_of_int x = of_int x"
  using fl_between [of "of_int x"] abs_rat_of_int_less [of x 53]
  by (simp add: float_of_int_def)

lemma scale_int_between:
  assumes "\<bar>x\<bar> < 2 ^ 53" "\<bar>of_int x * s\<bar> < 2 ^ 53"
  shows "\<lfloor>of_int x * s\<rfloor> \<le> scale_int x s \<and> scale_int x s \<le> \<lceil>of_int x * s\<rceil>"
  using assms fl_between [of "of_int x * s"]
  by (simp add: scale_int_def fmul_def float_of_int_exact py_int_ge py_int_le)

lemma scale_int_near:
  assumes "\<bar>x\<bar> < 2 ^ 53" "\<bar>of_int x * s\<bar> < 2 ^ 53"
  shows "\<bar>of_int (scale_int x s) - of_int x * s\<bar> < 1"
proof -
  from scale_int_between [OF assms]
  have "of_int \<lfloor>of_int x * s\<rfloor> \<le> (of_int (scale_int x s) :: rat)"
    and "(of_int (scale_int x s) :: rat) \<le> of_int \<lceil>of_int x * s\<rceil>"
    by (simp_all only: of_int_le_iff)
  then show ?thesis
    by linarith
qed

text \<open>With the factor \<open>1.0\<close> an integer below \<open>2^53\<close> comes back unchanged.\<close>

lemma scale_int_one: "\<bar>x\<bar> < 2 ^ 53 \<Longrightarrow> scale_int x 1 = x"
  using scale_int_between [of x 1] abs_rat_of_int_less [of x 53] by simp

text \<open>
  When the exact product is a multiple of a quarter (and small), the float product is
  exact: \<open>int(x * scale_factor)\<close> is the exact product truncated. This evaluates the
  examples, whose factors are multiples of a quarter.
\<close>

lemma scale_int_exact:
  assumes "\<bar>x\<bar> < 2 ^ 51"
    and "of_int \<lfloor>of_int x * s * 4\<rfloor> = of_int x * s * 4"
    and "\<bar>of_int x * s\<bar> < 2 ^ 51"
  shows "scale_int x s = py_int (of_int x * s)"
proof -
  have "\<bar>rat_of_int x\<bar> < 2 ^ (53 - 0)"
    using assms(1) by (simp flip: of_int_abs)
  then have "float_of_int x = of_int x"
    unfolding float_of_int_def by (intro fl_exact [where k = 0 and m = x]) simp_all
  moreover have "(2::rat) ^ 2 = 4"
    by simp
  with assms(2) have "of_int x * s * 2 ^ 2 = rat_of_int \<lfloor>of_int x * s * 4\<rfloor>"
    by (simp only:)
  then have "fl (of_int x * s) = of_int x * s"
    by (rule fl_exact) (use assms(3) in simp_all)
  ultimately show ?thesis
    by (simp add: scale_int_def fmul_def)
qed

lemma scale_int_roundtrip:
  assumes "roundtrip_ok x s t"
  shows "\<bar>scale_int (scale_int x s) t - x\<bar> \<le> 1"
proof -
  define y where "y = scale_int x s"
  from assms have x: "\<bar>x\<bar> < 2 ^ 52" and xs: "\<bar>of_int x * s\<bar> < 2 ^ 52" and t: "0 < t"
    and u: "of_int \<bar>x\<bar> * \<bar>s * t - 1\<bar> + t \<le> 1"
    by (simp_all add: roundtrip_ok_def)
  have x53: "\<bar>x\<bar> < 2 ^ 53"
    using x by simp
  have xs53: "\<bar>of_int x * s\<bar> < 2 ^ 53"
    using xs by simp
  have near: "\<bar>of_int y - of_int x * s\<bar> < 1"
    unfolding y_def using x53 xs53 by (rule scale_int_near)
  have "(of_int y * t - of_int x :: rat) = (of_int y - of_int x * s) * t + of_int x * (s * t - 1)"
    by (simp add: algebra_simps)
  then have "\<bar>of_int y * t - of_int x :: rat\<bar>
      \<le> \<bar>of_int y - of_int x * s\<bar> * t + \<bar>of_int x\<bar> * \<bar>s * t - 1\<bar>"
    using t by (metis abs_mult abs_of_pos abs_triangle_ineq)
  also have "\<dots> < 1 * t + \<bar>of_int x\<bar> * \<bar>s * t - 1\<bar>"
    using near t by (intro add_strict_right_mono mult_strict_right_mono)
  also have "\<dots> \<le> 1"
    using u by (simp add: add.commute)
  finally have close: "\<bar>of_int y * t - of_int x :: rat\<bar> < 1" .
  have "\<bar>rat_of_int y\<bar> < \<bar>of_int x * s\<bar> + 1"
    using near by linarith
  then have "\<bar>rat_of_int y\<bar> < rat_of_int (2 ^ 53)"
    using xs by simp
  then have y53: "\<bar>y\<bar> < 2 ^ 53"
    by (simp only: of_int_abs [symmetric] of_int_less_iff)
  have "\<bar>rat_of_int x\<bar> < 2 ^ 52"
    using x by (rule abs_rat_of_int_less)
  with close have "\<bar>of_int y * t\<bar> < 1 + 2 ^ 52"
    by linarith
  then have yt53: "\<bar>of_int y * t\<bar> < 2 ^ 53"
    by simp
  from scale_int_between [OF y53 yt53]
  have lo: "\<lfloor>of_int y * t\<rfloor> \<le> scale_int y t" and hi: "scale_int y t \<le> \<lceil>of_int y * t\<rceil>"
    by simp_all
  have "of_int (x - 1) \<le> of_int y * t"
    using close by (simp; linarith)
  then have "x - 1 \<le> \<lfloor>of_int y * t\<rfloor>"
    by (simp only: le_floor_iff)
  moreover have "of_int y * t \<le> of_int (x + 1)"
    using close by (simp; linarith)
  then have "\<lceil>of_int y * t\<rceil> \<le> x + 1"
    by (simp only: ceiling_le_iff)
  ultimately show ?thesis
    using lo hi unfolding y_def by linarith
qed

lemmas glyph_eval =
  ex_glyf_def ex_simple_glyph_def ex_composite_glyph_def scale_glyf_def scale_glyph_ttf_def
  isComposite_def scale_bbox_def scale_component_def scale_int_exact py_int_def

section \<open>Glyph outlines\<close>

text \<open>
  C1, as the specification states it: each stored coordinate or offset is the original
  times the factor, rounded to the nearest integer. It fails: the glyph point \<open>(1, 7)\<close>
  scaled by \<open>1.75\<close> is stored as \<open>(1, 12)\<close>, and \<open>1.75\<close> rounds to \<open>2\<close> under both tie rules.
\<close>

theorem scale_glyph_ttf_rounding_counterexample:
  "coordinates (scale_glyph_ttf ex_simple_glyph ex_glyf (7 / 4)) = [(1, 12), (5, - 12)]
   \<and> coordinates ex_simple_glyph = [(1, 7), (3, - 7)]
   \<and> round_half_even (of_int 1 * (7 / 4)) = 2
   \<and> round_half_away (of_int 1 * (7 / 4)) = 2"
  by (simp add: glyph_eval round_half_even_def round_half_away_def)

text \<open>
  C1, amended: for a simple glyph every coordinate, and for a composite glyph every
  component offset that is present, is replaced by \<open>int(v * scale_factor)\<close>, which is the
  binary64 product truncated toward zero; for values below \<open>2^53\<close> it lies within one unit
  of the exact product.
\<close>

theorem scale_glyph_ttf_truncates:
  "(\<not> isComposite g \<and> 0 < numberOfContours g \<longrightarrow>
      coordinates (scale_glyph_ttf g glyf_table s) =
        map (\<lambda>(x, y). (scale_int x s, scale_int y s)) (coordinates g))
   \<and> (isComposite g \<longrightarrow>
      components (scale_glyph_ttf g glyf_table s) =
        map (\<lambda>c. c\<lparr>comp_x := map_option (\<lambda>v. scale_int v s) (comp_x c),
                     comp_y := map_option (\<lambda>v. scale_int v s) (comp_y c)\<rparr>) (components g))
   \<and> (\<forall>x. truncates_toward_zero (fmul (float_of_int x) s) (scale_int x s))
   \<and> (\<forall>x. \<bar>x\<bar> < 2 ^ 53 \<and> \<bar>of_int x * s\<bar> < 2 ^ 53 \<longrightarrow>
          \<bar>of_int (scale_int x s) - of_int x * s\<bar> < 1)"
proof (intro conjI impI allI)
  assume "\<not> isComposite g \<and> 0 < numberOfContours g"
  then show "coordinates (scale_glyph_ttf g glyf_table s) =
      map (\<lambda>(x, y). (scale_int x s, scale_int y s)) (coordinates g)"
    by (simp add: scale_glyph_ttf_def Let_def split: option.split)
next
  assume "isComposite g"
  moreover have "(\<lambda>c. scale_component c s) =
      (\<lambda>c. c\<lparr>comp_x := map_option (\<lambda>v. scale_int v s) (comp_x c),
                comp_y := map_option (\<lambda>v. scale_int v s) (comp_y c)\<rparr>)"
    by (rule ext) (simp add: scale_component_def map_option_case)
  ultimately show "components (scale_glyph_ttf g glyf_table s) =
      map (\<lambda>c. c\<lparr>comp_x := map_option (\<lambda>v. scale_int v s) (comp_x c),
                   comp_y := map_option (\<lambda>v. scale_int v s) (comp_y c)\<rparr>) (components g)"
    by (simp add: scale_glyph_ttf_def Let_def split: option.split)
next
  fix x
  show "truncates_toward_zero (fmul (float_of_int x) s) (scale_int x s)"
    unfolding scale_int_def by (rule py_int_truncates)
next
  fix x
  assume "\<bar>x\<bar> < 2 ^ 53 \<and> \<bar>of_int x * s\<bar> < 2 ^ 53"
  then show "\<bar>of_int (scale_int x s) - of_int x * s\<bar> < 1"
    by (simp add: scale_int_near)
qed

theorem scale_glyph_ttf_truncates_witness:
  "\<not> isComposite ex_simple_glyph \<and> 0 < numberOfContours ex_simple_glyph
   \<and> isComposite ex_composite_glyph
   \<and> coordinates (scale_glyph_ttf ex_simple_glyph ex_glyf (7 / 4)) = [(1, 12), (5, - 12)]
   \<and> components (scale_glyph_ttf ex_composite_glyph ex_glyf (7 / 4)) =
        [\<lparr>glyphName = ''A'', comp_x = Some 1, comp_y = Some 1\<rparr>]
   \<and> truncates_toward_zero (fmul (float_of_int (- 7)) (7 / 4)) (- 12)
   \<and> \<bar>of_int (scale_int (- 7) (7 / 4)) - of_int (- 7) * (7 / 4 :: rat)\<bar> < 1"
proof -
  have v: "scale_int 1 (7 / 4) = 1" "scale_int 7 (7 / 4) = 12" "scale_int 3 (7 / 4) = 5"
    "scale_int (- 7) (7 / 4) = - 12"
    by (simp_all add: scale_int_exact py_int_def)
  have g: "\<not> isComposite ex_simple_glyph \<and> 0 < numberOfContours ex_simple_glyph"
    and c: "isComposite ex_composite_glyph"
    by (simp_all add: glyph_eval)
  have r: "\<bar>- 7 :: int\<bar> < 2 ^ 53 \<and> \<bar>of_int (- 7) * (7 / 4 :: rat)\<bar> < 2 ^ 53"
    by simp
  note simple = scale_glyph_ttf_truncates [of ex_simple_glyph ex_glyf "7 / 4"]
  note composite = scale_glyph_ttf_truncates [of ex_composite_glyph ex_glyf "7 / 4"]
  from simple g
  have "coordinates (scale_glyph_ttf ex_simple_glyph ex_glyf (7 / 4)) = [(1, 12), (5, - 12)]"
    by (simp add: v ex_simple_glyph_def)
  moreover from composite c
  have "components (scale_glyph_ttf ex_composite_glyph ex_glyf (7 / 4)) =
      [\<lparr>glyphName = ''A'', comp_x = Some 1, comp_y = Some 1\<rparr>]"
    by (simp add: v ex_composite_glyph_def)
  moreover from simple
  have "truncates_toward_zero (fmul (float_of_int (- 7)) (7 / 4)) (scale_int (- 7) (7 / 4))"
    by blast
  moreover from simple r
  have "\<bar>of_int (scale_int (- 7) (7 / 4)) - of_int (- 7) * (7 / 4 :: rat)\<bar> < 1"
    by blast
  ultimately show ?thesis
    using g c by (simp only: v simp_thms)
qed

text \<open>
  C2, as the specification states it: the bounding box is recomputed from the scaled
  coordinates, for a composite glyph from its scaled sub-components. It fails: at factor
  \<open>1.5\<close> the composite glyph \<open>B\<close> keeps the box \<open>(3, -9, 6, 12)\<close>, its old box scaled, while
  its scaled sub-component at its scaled offset spans \<open>(2, -9, 5, 11)\<close>.
\<close>

theorem scale_glyph_bounds_counterexample:
  "map_of (scale_glyf ex_glyf (3 / 2)) ''B'' =
     Some \<lparr>numberOfContours = - 1,
            components = [\<lparr>glyphName = ''A'', comp_x = Some 1, comp_y = Some 1\<rparr>],
            coordinates = [],
            bounds = Some \<lparr>xMin = 3, yMin = - 9, xMax = 6, yMax = 12\<rparr>\<rparr>
   \<and> recalc_bounds 1 (scale_glyf ex_glyf (3 / 2))
        \<lparr>numberOfContours = - 1,
         components = [\<lparr>glyphName = ''A'', comp_x = Some 1, comp_y = Some 1\<rparr>],
         coordinates = [],
         bounds = Some \<lparr>xMin = 3, yMin = - 9, xMax = 6, yMax = 12\<rparr>\<rparr> =
     Some \<lparr>xMin = 2, yMin = - 9, xMax = 5, yMax = 11\<rparr>"
  by (simp add: glyph_eval recalc_bounds_def bounds_of_points_def)

text \<open>
  C2, amended: the four stored bounding-box fields of a glyph that is not empty are each
  replaced by \<open>int(field * scale_factor)\<close>; the result does not depend on the glyph's
  coordinates, its components or the glyph table.
\<close>

theorem scale_glyph_ttf_bounds:
  "bounds (scale_glyph_ttf g glyf_table s) =
     (case bounds g of
        None \<Rightarrow> None
      | Some b \<Rightarrow>
          if numberOfContours g \<noteq> 0
          then Some \<lparr>xMin = scale_int (xMin b) s, yMin = scale_int (yMin b) s,
                      xMax = scale_int (xMax b) s, yMax = scale_int (yMax b) s\<rparr>
          else Some b)
   \<and> bounds (scale_glyph_ttf (g\<lparr>coordinates := pts, components := comps\<rparr>) glyf_table' s) =
       bounds (scale_glyph_ttf g glyf_table s)"
  by (simp add: scale_glyph_ttf_def scale_bbox_def isComposite_def Let_def split: option.split)

text \<open>
  C7, as the specification states it: scaling by \<open>s\<close> and then by \<open>1/s\<close> gives back every
  coordinate within one unit, for every \<open>s > 0\<close>. It fails for \<open>s = 0.25\<close>: the point
  \<open>(1, 7)\<close> becomes \<open>(0, 1)\<close> and then \<open>(0, 4)\<close>.
\<close>

theorem scale_roundtrip_counterexample:
  "coordinates (scale_glyph_ttf (scale_glyph_ttf ex_simple_glyph ex_glyf (1 / 4)) ex_glyf (1 / (1 / 4)))
     = [(0, 4), (0, - 4)]
   \<and> coordinates ex_simple_glyph = [(1, 7), (3, - 7)]"
  by (simp add: glyph_eval)

text \<open>
  C7, amended: for a simple glyph, scaling the coordinates by \<open>s\<close> and then by \<open>t\<close> gives
  back every coordinate within one unit when each coordinate satisfies \<open>roundtrip_ok\<close>:
  with \<open>t\<close> the reciprocal of \<open>s\<close>, when \<open>s\<close> is at least 1.
\<close>

theorem scale_glyph_ttf_roundtrip:
  assumes "\<not> isComposite g" "0 < numberOfContours g"
    and "\<forall>(x, y) \<in> set (coordinates g). roundtrip_ok x s t \<and> roundtrip_ok y s t"
  shows "list_all2 (\<lambda>(x, y) (x', y'). \<bar>x' - x\<bar> \<le> 1 \<and> \<bar>y' - y\<bar> \<le> 1)
           (coordinates g)
           (coordinates (scale_glyph_ttf (scale_glyph_ttf g glyf_table s) glyf_table' t))"
proof -
  let ?g1 = "scale_glyph_ttf g glyf_table s"
  have g1: "\<not> isComposite ?g1" "0 < numberOfContours ?g1"
    using assms(1,2)
    by (simp_all add: scale_glyph_ttf_def isComposite_def Let_def split: option.split)
  have 1: "coordinates ?g1 = map (\<lambda>(x, y). (scale_int x s, scale_int y s)) (coordinates g)"
    using assms(1,2) by (simp add: scale_glyph_ttf_def Let_def split: option.split)
  have 2: "coordinates (scale_glyph_ttf ?g1 glyf_table' t) =
      map (\<lambda>(x, y). (scale_int x t, scale_int y t)) (coordinates ?g1)"
    using g1 by (simp add: scale_glyph_ttf_def [of ?g1] Let_def split: option.split)
  show ?thesis
    unfolding 2 1 using assms(3)
    by (auto simp: list_all2_map2 list_all2_same scale_int_roundtrip)
qed

theorem scale_glyph_ttf_roundtrip_witness:
  "\<not> isComposite ex_simple_glyph \<and> 0 < numberOfContours ex_simple_glyph
   \<and> roundtrip_ok 1 2 (1 / 2) \<and> roundtrip_ok 7 2 (1 / 2)
   \<and> roundtrip_ok 3 2 (1 / 2) \<and> roundtrip_ok (- 7) 2 (1 / 2)
   \<and> coordinates (scale_glyph_ttf (scale_glyph_ttf ex_simple_glyph ex_glyf 2) ex_glyf (1 / 2))
       = [(1, 7), (3, - 7)]
   \<and> list_all2 (\<lambda>(x, y) (x', y'). \<bar>x' - x\<bar> \<le> 1 \<and> \<bar>y' - y\<bar> \<le> 1)
        [(1 :: int, 7 :: int), (3, - 7)] [(1 :: int, 7 :: int), (3, - 7)]"
proof -
  have g: "\<not> isComposite ex_simple_glyph" "0 < numberOfContours ex_simple_glyph"
    by (simp_all add: glyph_eval)
  have r: "roundtrip_ok 1 2 (1 / 2)" "roundtrip_ok 7 2 (1 / 2)"
    "roundtrip_ok 3 2 (1 / 2)" "roundtrip_ok (- 7) 2 (1 / 2)"
    by (simp_all add: roundtrip_ok_def)
  have c: "coordinates ex_simple_glyph = [(1, 7), (3, - 7)]"
    by (simp add: glyph_eval)
  have e: "coordinates (scale_glyph_ttf (scale_glyph_ttf ex_simple_glyph ex_glyf 2) ex_glyf (1 / 2))
       = [(1, 7), (3, - 7)]"
    by (simp add: glyph_eval)
  have "\<forall>(x, y) \<in> set (coordinates ex_simple_glyph).
      roundtrip_ok x 2 (1 / 2) \<and> roundtrip_ok y 2 (1 / 2)"
    using r by (simp add: c)
  from scale_glyph_ttf_roundtrip [OF g this, of ex_glyf ex_glyf]
  show ?thesis
    using g r by (simp add: c e)
qed

section \<open>The tables of a scaled font\<close>

lemma case_vmtx:
  "(case vmtx f of None \<Rightarrow> f | Some m \<Rightarrow> f\<lparr>vmtx := Some (h m)\<rparr>) = f\<lparr>vmtx := map_option h (vmtx f)\<rparr>"
  by (cases f) (simp split: option.split)

lemma case_vhea:
  "(case vhea f of None \<Rightarrow> f | Some t \<Rightarrow> f\<lparr>vhea := Some (h t)\<rparr>) = f\<lparr>vhea := map_option h (vhea f)\<rparr>"
  by (cases f) (simp split: option.split)

lemma case_post:
  "(case post f of None \<Rightarrow> f | Some t \<Rightarrow> f\<lparr>post := Some (h t)\<rparr>) = f\<lparr>post := map_option h (post f)\<rparr>"
  by (cases f) (simp split: option.split)

lemma case_kern:
  "(case kern f of None \<Rightarrow> f | Some t \<Rightarrow> f\<lparr>kern := Some (h t)\<rparr>) = f\<lparr>kern := map_option h (kern f)\<rparr>"
  by (cases f) (simp split: option.split)

lemma case_GPOS:
  "(case GPOS f of None \<Rightarrow> f | Some t \<Rightarrow> f\<lparr>GPOS := Some (h t)\<rparr>) = f\<lparr>GPOS := map_option h (GPOS f)\<rparr>"
  by (cases f) (simp split: option.split)

lemmas case_table = case_vmtx case_vhea case_post case_kern case_GPOS

lemma scale_metrics_tables_fields:
  assumes "scale_metrics_tables f s = Inr f'"
  shows "CFF f' = CFF f" "glyf f' = glyf f" "name f' = name f" "font.more f' = font.more f"
    "hmtx f' = map_option (\<lambda>m. scale_metrics m s) (hmtx f)"
    "vmtx f' = map_option (\<lambda>m. scale_metrics m s) (vmtx f)"
    "head f' = map_option (\<lambda>b. scale_bbox b s) (head f)"
    "hhea f' = map_option (\<lambda>t. scale_hhea t s) (hhea f)"
    "rel_option (\<lambda>t t'. scale_os2 t s = Inr t') (OS2 f) (OS2 f')"
    "vhea f' = map_option (\<lambda>t. scale_vhea t s) (vhea f)"
    "post f' = map_option (\<lambda>t. scale_post t s) (post f)"
    "kern f' = map_option (\<lambda>t. scale_kern t s) (kern f)"
    "GPOS f' = map_option (\<lambda>t. scale_gpos_values t s) (GPOS f)"
    "hmtx f \<noteq> None" "head f \<noteq> None" "hhea f \<noteq> None"
  using assms
  by (auto simp: scale_metrics_tables_def Let_def case_table split: option.splits sum.splits)


lemma rename_font_fields:
  "glyf (rename_font f a b) = glyf f" "hmtx (rename_font f a b) = hmtx f"
  "vmtx (rename_font f a b) = vmtx f" "head (rename_font f a b) = head f"
  "hhea (rename_font f a b) = hhea f" "OS2 (rename_font f a b) = OS2 f"
  "vhea (rename_font f a b) = vhea f" "post (rename_font f a b) = post f"
  "kern (rename_font f a b) = kern f" "GPOS (rename_font f a b) = GPOS f"
  "font.more (rename_font f a b) = font.more f"
  "(CFF (rename_font f a b) = None) = (CFF f = None)"
  by (simp_all add: rename_font_def Let_def split: option.split)

lemma scale_outlines_fields:
  assumes "scale_outlines redraw is_cff f s = Inr f'"
  shows "hmtx f' = hmtx f" "vmtx f' = vmtx f" "head f' = head f" "hhea f' = hhea f"
    "OS2 f' = OS2 f" "vhea f' = vhea f" "post f' = post f" "kern f' = kern f"
    "GPOS f' = GPOS f" "name f' = name f" "font.more f' = font.more f"
  using assms
  by (auto simp: scale_outlines_def scale_cff_glyphs_def split: if_splits option.splits)

lemma rename_if_requested_fields:
  "glyf (rename_if_requested f a b) = glyf f" "hmtx (rename_if_requested f a b) = hmtx f"
  "vmtx (rename_if_requested f a b) = vmtx f" "head (rename_if_requested f a b) = head f"
  "hhea (rename_if_requested f a b) = hhea f" "OS2 (rename_if_requested f a b) = OS2 f"
  "vhea (rename_if_requested f a b) = vhea f" "post (rename_if_requested f a b) = post f"
  "kern (rename_if_requested f a b) = kern f" "GPOS (rename_if_requested f a b) = GPOS f"
  "font.more (rename_if_requested f a b) = font.more f"
  "(CFF (rename_if_requested f a b) = None) = (CFF f = None)"
  by (simp_all add: rename_if_requested_def rename_font_fields split: option.split)

lemma scale_font_tables_eq:
  "scale_font_tables redraw f s rename_from rename_to =
     (case scale_outlines redraw (CFF f \<noteq> None) (rename_if_requested f rename_from rename_to) s of
        Inl e \<Rightarrow> Inl e
      | Inr f2 \<Rightarrow> scale_metrics_tables f2 s)"
  by (simp add: scale_font_tables_def rename_if_requested_def Let_def)

lemma scale_font_tables_fields:
  assumes "scale_font_tables redraw f s rename_from rename_to = Inr f'"
  shows "hmtx f' = map_option (\<lambda>m. scale_metrics m s) (hmtx f)"
    "vmtx f' = map_option (\<lambda>m. scale_metrics m s) (vmtx f)"
    "head f' = map_option (\<lambda>b. scale_bbox b s) (head f)"
    "hhea f' = map_option (\<lambda>t. scale_hhea t s) (hhea f)"
    "rel_option (\<lambda>t t'. scale_os2 t s = Inr t') (OS2 f) (OS2 f')"
    "vhea f' = map_option (\<lambda>t. scale_vhea t s) (vhea f)"
    "post f' = map_option (\<lambda>t. scale_post t s) (post f)"
    "kern f' = map_option (\<lambda>t. scale_kern t s) (kern f)"
    "GPOS f' = map_option (\<lambda>t. scale_gpos_values t s) (GPOS f)"
    "font.more f' = font.more f"
proof -
  from assms obtain f2
    where o: "scale_outlines redraw (CFF f \<noteq> None) (rename_if_requested f rename_from rename_to) s = Inr f2"
      and m: "scale_metrics_tables f2 s = Inr f'"
    by (auto simp: scale_font_tables_eq split: sum.splits)
  note 1 = scale_outlines_fields [OF o] and 2 = scale_metrics_tables_fields [OF m]
  show "hmtx f' = map_option (\<lambda>m. scale_metrics m s) (hmtx f)"
    "vmtx f' = map_option (\<lambda>m. scale_metrics m s) (vmtx f)"
    "head f' = map_option (\<lambda>b. scale_bbox b s) (head f)"
    "hhea f' = map_option (\<lambda>t. scale_hhea t s) (hhea f)"
    "rel_option (\<lambda>t t'. scale_os2 t s = Inr t') (OS2 f) (OS2 f')"
    "vhea f' = map_option (\<lambda>t. scale_vhea t s) (vhea f)"
    "post f' = map_option (\<lambda>t. scale_post t s) (post f)"
    "kern f' = map_option (\<lambda>t. scale_kern t s) (kern f)"
    "GPOS f' = map_option (\<lambda>t. scale_gpos_values t s) (GPOS f)"
    "font.more f' = font.more f"
    using 2 by (simp_all add: 1 rename_if_requested_fields)
qed

lemma scale_bbox_eq:
  "scale_bbox b s =
     \<lparr>xMin = scale_int (xMin b) s, yMin = scale_int (yMin b) s,
      xMax = scale_int (xMax b) s, yMax = scale_int (yMax b) s\<rparr>"
  by (cases b) (simp add: scale_bbox_def)

lemma scale_hhea_eq:
  "scale_hhea t s =
     \<lparr>hhea_ascent = scale_int (hhea_ascent t) s, hhea_descent = scale_int (hhea_descent t) s,
      hhea_lineGap = scale_int (hhea_lineGap t) s,
      advanceWidthMax = scale_int (advanceWidthMax t) s,
      minLeftSideBearing = scale_int (minLeftSideBearing t) s,
      minRightSideBearing = scale_int (minRightSideBearing t) s,
      xMaxExtent = scale_int (xMaxExtent t) s\<rparr>"
  by (cases t) (simp add: scale_hhea_def)

lemma scale_vhea_eq:
  "scale_vhea t s =
     \<lparr>vhea_ascent = scale_int (vhea_ascent t) s, vhea_descent = scale_int (vhea_descent t) s,
      vhea_lineGap = scale_int (vhea_lineGap t) s,
      advanceHeightMax = scale_int (advanceHeightMax t) s,
      minTopSideBearing = scale_int (minTopSideBearing t) s,
      minBottomSideBearing = scale_int (minBottomSideBearing t) s,
      yMaxExtent = scale_int (yMaxExtent t) s\<rparr>"
  by (cases t) (simp add: scale_vhea_def)

lemma scale_post_eq:
  "scale_post t s =
     \<lparr>underlinePosition = scale_int (underlinePosition t) s,
      underlineThickness = scale_int (underlineThickness t) s\<rparr>"
  by (cases t) (simp add: scale_post_def)

lemma scale_os2_eq:
  assumes "scale_os2 t s = Inr t'"
  shows "t' =
     \<lparr>sTypoAscender = scale_int (sTypoAscender t) s,
      sTypoDescender = scale_int (sTypoDescender t) s,
      sTypoLineGap = scale_int (sTypoLineGap t) s,
      usWinAscent = scale_int (usWinAscent t) s,
      usWinDescent = scale_int (usWinDescent t) s,
      ySubscriptXSize = scale_int (ySubscriptXSize t) s,
      ySubscriptYSize = scale_int (ySubscriptYSize t) s,
      ySubscriptXOffset = scale_int (ySubscriptXOffset t) s,
      ySubscriptYOffset = scale_int (ySubscriptYOffset t) s,
      ySuperscriptXSize = scale_int (ySuperscriptXSize t) s,
      ySuperscriptYSize = scale_int (ySuperscriptYSize t) s,
      ySuperscriptXOffset = scale_int (ySuperscriptXOffset t) s,
      ySuperscriptYOffset = scale_int (ySuperscriptYOffset t) s,
      yStrikeoutSize = scale_int (yStrikeoutSize t) s,
      yStrikeoutPosition = scale_int (yStrikeoutPosition t) s,
      sxHeight = map_option (\<lambda>v. scale_int v s) (sxHeight t),
      sCapHeight = map_option (\<lambda>v. scale_int v s) (sCapHeight t),
      xAvgCharWidth = scale_int (xAvgCharWidth t) s\<rparr>"
  using assms by (cases t) (auto simp: scale_os2_def Let_def split: option.splits)


lemmas font_eval =
  ex_font_def ex_font_no_outlines_def ex_font_os2_v1_def ex_hhea_def ex_os2_def
  ex_subtable_def ex_names_def
  scale_font_tables_def rename_if_requested_def scale_outlines_def scale_metrics_tables_def
  scale_metrics_def
  scale_hhea_def scale_os2_def scale_vhea_def scale_post_def scale_kern_def
  scale_gpos_values_def scale_gpos_subtable_def scale_pair_value_def scale_value_record_def
  scale_value_field_def scale_anchor_slot_def scale_anchor_def

text \<open>
  C3, as the specification states it: every metric field becomes \<open>round(original * s)\<close>.
  It fails: at factor \<open>1.75\<close> the \<open>hhea\<close> ascent \<open>1\<close> stays \<open>1\<close> (and the descent \<open>-7\<close> becomes
  \<open>-12\<close>), while \<open>1.75\<close> rounds to \<open>2\<close> under both tie rules.
\<close>

theorem scale_font_metrics_counterexample:
  "scale_font_tables (\<lambda>s cs. cs) ex_font (7 / 4) None None =
     Inr \<lparr>CFF = None,
          glyf = Some
            [(''A'', \<lparr>numberOfContours = 1, components = [],
                      coordinates = [(1, 12), (5, - 12)],
                      bounds = Some \<lparr>xMin = 1, yMin = - 12, xMax = 5, yMax = 12\<rparr>\<rparr>),
             (''B'', \<lparr>numberOfContours = - 1,
                      components = [\<lparr>glyphName = ''A'', comp_x = Some 1, comp_y = Some 1\<rparr>],
                      coordinates = [],
                      bounds = Some \<lparr>xMin = 3, yMin = - 10, xMax = 7, yMax = 14\<rparr>\<rparr>)],
          hmtx = Some [(''A'', 1050, 1), (''B'', 1050, - 12)], vmtx = None,
          head = Some \<lparr>xMin = 1, yMin = - 12, xMax = 7, yMax = 14\<rparr>,
          hhea = Some
            \<lparr>hhea_ascent = 1, hhea_descent = - 12, hhea_lineGap = 0, advanceWidthMax = 1050,
             minLeftSideBearing = - 5, minRightSideBearing = 5, xMaxExtent = 12\<rparr>,
          OS2 = Some
            \<lparr>sTypoAscender = 12, sTypoDescender = - 12, sTypoLineGap = 0, usWinAscent = 15,
             usWinDescent = 5, ySubscriptXSize = 8, ySubscriptYSize = 10, ySubscriptXOffset = 0,
             ySubscriptYOffset = 1, ySuperscriptXSize = 8, ySuperscriptYSize = 10,
             ySuperscriptXOffset = 0, ySuperscriptYOffset = 5, yStrikeoutSize = 1,
             yStrikeoutPosition = 3, sxHeight = Some 8, sCapHeight = Some 12,
             xAvgCharWidth = 1050\<rparr>,
          vhea = None,
          post = Some \<lparr>underlinePosition = - 1, underlineThickness = 1\<rparr>,
          kern = Some [Some [((''A'', ''B''), - 12)], None],
          GPOS = Some \<lparr>LookupList = Some [[
            \<lparr>SinglePos = None,
             PairSet = Some [None,
                             Some [\<lparr>Value1 = Some \<lparr>XPlacement = None, YPlacement = None,
                                                     XAdvance = Some (- 12), YAdvance = Some 0\<rparr>,
                                    Value2 = None\<rparr>]],
             Class1Record = None,
             BaseArray = Some [[None, Some \<lparr>XCoordinate = Some 5, YCoordinate = Some (- 12)\<rparr>]],
             MarkArray = Some [None, Some \<lparr>XCoordinate = Some 1, YCoordinate = Some 12\<rparr>],
             Mark2Array = Some [[Some \<lparr>XCoordinate = Some 12, YCoordinate = Some 1\<rparr>, None]],
             LigatureArray = Some [[[None, Some \<lparr>XCoordinate = Some 5, YCoordinate = Some 5\<rparr>]]],
             Value = None, Mark1Array = None, EntryExitRecord = None,
             ExtSubTable = None\<rparr>]]\<rparr>,
          name = Some ex_names\<rparr>
   \<and> map_option hhea_ascent (hhea ex_font) = Some 1
   \<and> round_half_even (of_int 1 * (7 / 4)) = 2
   \<and> round_half_away (of_int 1 * (7 / 4)) = 2"
  by (simp add: font_eval glyph_eval round_half_even_def round_half_away_def)


text \<open>
  C3, amended: when \<open>scale_font\<close> does not raise, every metric field of \<open>hmtx\<close>, \<open>vmtx\<close>,
  \<open>head\<close>, \<open>hhea\<close>, \<open>OS/2\<close>, \<open>vhea\<close> and \<open>post\<close> is \<open>int(original * s)\<close>, the binary64
  product truncated toward zero, each field on its own; a table that is absent from the
  input stays absent.
\<close>

theorem scale_font_tables_metrics:
  assumes "scale_font_tables redraw f s rename_from rename_to = Inr f'"
  shows
    "hmtx f' = map_option (map (\<lambda>(n, width, lsb). (n, scale_int width s, scale_int lsb s))) (hmtx f)
     \<and> vmtx f' =
         map_option (map (\<lambda>(n, height, tsb). (n, scale_int height s, scale_int tsb s))) (vmtx f)
     \<and> head f' =
         map_option (\<lambda>t. \<lparr>xMin = scale_int (xMin t) s, yMin = scale_int (yMin t) s,
                            xMax = scale_int (xMax t) s, yMax = scale_int (yMax t) s\<rparr>) (head f)
     \<and> hhea f' =
         map_option (\<lambda>t.
            \<lparr>hhea_ascent = scale_int (hhea_ascent t) s,
             hhea_descent = scale_int (hhea_descent t) s,
             hhea_lineGap = scale_int (hhea_lineGap t) s,
             advanceWidthMax = scale_int (advanceWidthMax t) s,
             minLeftSideBearing = scale_int (minLeftSideBearing t) s,
             minRightSideBearing = scale_int (minRightSideBearing t) s,
             xMaxExtent = scale_int (xMaxExtent t) s\<rparr>) (hhea f)
     \<and> OS2 f' =
         map_option (\<lambda>t.
            \<lparr>sTypoAscender = scale_int (sTypoAscender t) s,
             sTypoDescender = scale_int (sTypoDescender t) s,
             sTypoLineGap = scale_int (sTypoLineGap t) s,
             usWinAscent = scale_int (usWinAscent t) s,
             usWinDescent = scale_int (usWinDescent t) s,
             ySubscriptXSize = scale_int (ySubscriptXSize t) s,
             ySubscriptYSize = scale_int (ySubscriptYSize t) s,
             ySubscriptXOffset = scale_int (ySubscriptXOffset t) s,
             ySubscriptYOffset = scale_int (ySubscriptYOffset t) s,
             ySuperscriptXSize = scale_int (ySuperscriptXSize t) s,
             ySuperscriptYSize = scale_int (ySuperscriptYSize t) s,
             ySuperscriptXOffset = scale_int (ySuperscriptXOffset t) s,
             ySuperscriptYOffset = scale_int (ySuperscriptYOffset t) s,
             yStrikeoutSize = scale_int (yStrikeoutSize t) s,
             yStrikeoutPosition = scale_int (yStrikeoutPosition t) s,
             sxHeight = map_option (\<lambda>v. scale_int v s) (sxHeight t),
             sCapHeight = map_option (\<lambda>v. scale_int v s) (sCapHeight t),
             xAvgCharWidth = scale_int (xAvgCharWidth t) s\<rparr>) (OS2 f)
     \<and> vhea f' =
         map_option (\<lambda>t.
            \<lparr>vhea_ascent = scale_int (vhea_ascent t) s,
             vhea_descent = scale_int (vhea_descent t) s,
             vhea_lineGap = scale_int (vhea_lineGap t) s,
             advanceHeightMax = scale_int (advanceHeightMax t) s,
             minTopSideBearing = scale_int (minTopSideBearing t) s,
             minBottomSideBearing = scale_int (minBottomSideBearing t) s,
             yMaxExtent = scale_int (yMaxExtent t) s\<rparr>) (vhea f)
     \<and> post f' =
         map_option (\<lambda>t. \<lparr>underlinePosition = scale_int (underlinePosition t) s,
                            underlineThickness = scale_int (underlineThickness t) s\<rparr>) (post f)
     \<and> (\<forall>x. truncates_toward_zero (fmul (float_of_int x) s) (scale_int x s))"
proof -
  note fields = scale_font_tables_fields [OF assms]
  have os2: "OS2 f' = map_option (\<lambda>t.
            \<lparr>sTypoAscender = scale_int (sTypoAscender t) s,
             sTypoDescender = scale_int (sTypoDescender t) s,
             sTypoLineGap = scale_int (sTypoLineGap t) s,
             usWinAscent = scale_int (usWinAscent t) s,
             usWinDescent = scale_int (usWinDescent t) s,
             ySubscriptXSize = scale_int (ySubscriptXSize t) s,
             ySubscriptYSize = scale_int (ySubscriptYSize t) s,
             ySubscriptXOffset = scale_int (ySubscriptXOffset t) s,
             ySubscriptYOffset = scale_int (ySubscriptYOffset t) s,
             ySuperscriptXSize = scale_int (ySuperscriptXSize t) s,
             ySuperscriptYSize = scale_int (ySuperscriptYSize t) s,
             ySuperscriptXOffset = scale_int (ySuperscriptXOffset t) s,
             ySuperscriptYOffset = scale_int (ySuperscriptYOffset t) s,
             yStrikeoutSize = scale_int (yStrikeoutSize t) s,
             yStrikeoutPosition = scale_int (yStrikeoutPosition t) s,
             sxHeight = map_option (\<lambda>v. scale_int v s) (sxHeight t),
             sCapHeight = map_option (\<lambda>v. scale_int v s) (sCapHeight t),
             xAvgCharWidth = scale_int (xAvgCharWidth t) s\<rparr>) (OS2 f)"
    using fields(5) by (cases "OS2 f"; cases "OS2 f'") (simp_all add: scale_os2_eq)
  have trunc: "truncates_toward_zero (fmul (float_of_int x) s) (scale_int x s)" for x
    unfolding scale_int_def by (rule py_int_truncates)
  have 1: "(\<lambda>m. scale_metrics m s) = map (\<lambda>(n, a, b). (n, scale_int a s, scale_int b s))"
    by (rule ext) (simp add: scale_metrics_def)
  show ?thesis
    unfolding fields(1-4,6,7) os2 1
    by (simp add: trunc scale_bbox_eq scale_hhea_eq scale_vhea_eq scale_post_eq)
qed

theorem scale_font_tables_metrics_witness:
  "hmtx ex_font = Some [(''A'', 600, 1), (''B'', 600, - 7)]
   \<and> scale_int 600 (7 / 4) = 1050 \<and> scale_int 1 (7 / 4) = 1 \<and> scale_int (- 7) (7 / 4) = - 12
   \<and> (\<exists>f'. scale_font_tables (\<lambda>s cs. cs) ex_font (7 / 4) None None = Inr f'
          \<and> hmtx f' = Some [(''A'', 1050, 1), (''B'', 1050, - 12)]
          \<and> vmtx f' = None \<and> vhea f' = None
          \<and> map_option hhea_descent (hhea f') = Some (- 12))"
proof -
  obtain f' where f': "scale_font_tables (\<lambda>s cs. cs) ex_font (7 / 4) None None = Inr f'"
    by (simp add: font_eval glyph_eval)
  have v: "scale_int 600 (7 / 4) = 1050" "scale_int 1 (7 / 4) = 1"
    "scale_int (- 7) (7 / 4) = - 12"
    by (simp_all add: scale_int_exact py_int_def)
  from scale_font_tables_metrics [OF f']
  have "hmtx f' = Some [(''A'', 1050, 1), (''B'', 1050, - 12)]"
    and "vmtx f' = None" and "vhea f' = None"
    and "map_option hhea_descent (hhea f') = Some (- 12)"
    by (simp_all add: ex_font_def ex_hhea_def v)
  with f' v show ?thesis
    by (simp add: ex_font_def)
qed

text \<open>
  C5: a font with neither a \<open>CFF\<close> nor a \<open>glyf\<close> table should pass the outline scaler
  untouched. The code raises instead: \<open>font['glyf']\<close> is a KeyError.
\<close>

theorem scale_font_tables_no_outlines:
  assumes "CFF f = None" "glyf f = None"
  shows "scale_font_tables redraw f s rename_from rename_to = Inl (KeyError ''glyf'')"
  using assms rename_if_requested_fields(1) [of f rename_from rename_to]
  by (simp add: scale_font_tables_eq scale_outlines_def)

theorem scale_font_tables_no_outlines_witness:
  "CFF ex_font_no_outlines = None \<and> glyf ex_font_no_outlines = None
   \<and> scale_font_tables (\<lambda>s cs. cs) ex_font_no_outlines (27 / 25) None None
       = Inl (KeyError ''glyf'')"
  using scale_font_tables_no_outlines [of ex_font_no_outlines "\<lambda>s cs. cs" "27 / 25" None None]
  by (simp add: ex_font_no_outlines_def ex_font_def)

text \<open>
  C10: scaling keeps the keys of the dicts it rewrites, in their order: the glyph names of
  \<open>hmtx\<close> and \<open>vmtx\<close> and the glyph pairs of every \<open>kern\<close> subtable.
\<close>

theorem scale_font_tables_preserves_keys:
  assumes "scale_font_tables redraw f s rename_from rename_to = Inr f'"
  shows "map_option (map fst) (hmtx f') = map_option (map fst) (hmtx f)
     \<and> map_option (map fst) (vmtx f') = map_option (map fst) (vmtx f)
     \<and> map_option (map (map_option (map fst))) (kern f') =
         map_option (map (map_option (map fst))) (kern f)"
proof -
  note fields = scale_font_tables_fields [OF assms]
  have m: "map fst (scale_metrics m s) = map fst m" for m
    by (induction m) (auto simp: scale_metrics_def)
  have k: "map (map_option (map fst)) (scale_kern t s) = map (map_option (map fst)) t" for t
    by (induction t) (auto simp: scale_kern_def split: option.split)
  show ?thesis
    unfolding fields(1,2,8)
    by (simp add: option.map_comp comp_def m k)
qed

theorem scale_font_tables_preserves_keys_witness:
  "\<exists>f'. scale_font_tables (\<lambda>s cs. cs) ex_font (7 / 4) None None = Inr f'
      \<and> map_option (map fst) (hmtx f') = Some [''A'', ''B'']
      \<and> map_option (map fst) (vmtx f') = None
      \<and> map_option (map (map_option (map fst))) (kern f') = Some [Some [(''A'', ''B'')], None]"
proof -
  obtain f' where f': "scale_font_tables (\<lambda>s cs. cs) ex_font (7 / 4) None None = Inr f'"
    by (simp add: font_eval glyph_eval)
  from scale_font_tables_preserves_keys [OF f'] f' show ?thesis
    by (simp add: ex_font_def)
qed


section \<open>The factor 1.0\<close>

lemma map_id_list_all: "list_all (\<lambda>x. h x = x) xs \<Longrightarrow> map h xs = xs"
  by (induction xs) simp_all

lemma list_all_mono: "list_all P xs \<Longrightarrow> (\<And>x. P x \<Longrightarrow> Q x) \<Longrightarrow> list_all Q xs"
  by (induction xs) simp_all

lemma scale_int_one_in_range: "in_range v \<Longrightarrow> scale_int v 1 = v"
  by (simp add: in_range_def scale_int_one)

lemma scale_opt_one:
  "opt_in_range v \<Longrightarrow> (case v of None \<Rightarrow> None | Some n \<Rightarrow> Some (scale_int n 1)) = v"
  by (cases v) (simp_all add: opt_in_range_def scale_int_one_in_range)

lemma scale_bbox_one: "bbox_in_range b \<Longrightarrow> scale_bbox b 1 = b"
  by (simp add: bbox_in_range_def scale_bbox_def scale_int_one_in_range)

lemma scale_component_one:
  "opt_in_range (comp_x c) \<and> opt_in_range (comp_y c) \<Longrightarrow> scale_component c 1 = c"
  by (simp add: scale_component_def scale_opt_one)

lemma scale_glyph_ttf_one:
  assumes "glyph_in_range g"
  shows "scale_glyph_ttf g glyf_table 1 = g"
proof -
  from assms have "list_all (\<lambda>c. scale_component c 1 = c) (components g)"
    unfolding glyph_in_range_def by (auto elim!: list_all_mono simp: scale_component_one)
  then have c: "map (\<lambda>c. scale_component c 1) (components g) = components g"
    by (rule map_id_list_all)
  from assms have "list_all (\<lambda>p. (case p of (x, y) \<Rightarrow> (scale_int x 1, scale_int y 1)) = p)
      (coordinates g)"
    unfolding glyph_in_range_def by (auto elim!: list_all_mono simp: scale_int_one_in_range)
  then have p: "map (\<lambda>(x, y). (scale_int x 1, scale_int y 1)) (coordinates g) = coordinates g"
    by (rule map_id_list_all)
  from assms have "case bounds g of None \<Rightarrow> True | Some b \<Rightarrow> scale_bbox b 1 = b"
    by (simp add: glyph_in_range_def scale_bbox_one split: option.splits)
  then show ?thesis
    by (simp add: scale_glyph_ttf_def Let_def c p split: option.splits)
qed

lemma scale_glyf_one:
  assumes "list_all (\<lambda>(glyph_name, g). glyph_in_range g) glyf_table"
  shows "scale_glyf glyf_table 1 = glyf_table"
proof -
  have "list_all (\<lambda>e. (case e of (glyph_name, g) \<Rightarrow>
      (glyph_name, if numberOfContours g \<noteq> 0 then scale_glyph_ttf g T 1 else g)) = e) glyf_table"
    for T
    using assms by (auto elim!: list_all_mono simp: scale_glyph_ttf_one)
  then show ?thesis
    unfolding scale_glyf_def by (rule map_id_list_all)
qed

lemma scale_metrics_one: "metrics_in_range m \<Longrightarrow> scale_metrics m 1 = m"
  unfolding scale_metrics_def metrics_in_range_def
  by (intro map_id_list_all) (auto elim!: list_all_mono simp: scale_int_one_in_range)

lemma scale_hhea_one: "hhea_in_range t \<Longrightarrow> scale_hhea t 1 = t"
  by (simp add: hhea_in_range_def scale_hhea_def scale_int_one_in_range)

lemma scale_vhea_one: "vhea_in_range t \<Longrightarrow> scale_vhea t 1 = t"
  by (simp add: vhea_in_range_def scale_vhea_def scale_int_one_in_range)

lemma scale_post_one: "post_in_range t \<Longrightarrow> scale_post t 1 = t"
  by (simp add: post_in_range_def scale_post_def scale_int_one_in_range)

lemma scale_os2_one: "os2_in_range t \<Longrightarrow> scale_os2 t 1 = Inr t' \<Longrightarrow> t' = t"
  by (cases t)
    (auto simp: os2_in_range_def opt_in_range_def scale_os2_def Let_def scale_int_one_in_range
      split: option.splits)

lemma scale_kern_one: "kern_in_range k \<Longrightarrow> scale_kern k 1 = k"
proof -
  assume "kern_in_range k"
  then have "list_all (\<lambda>table. (case table of None \<Rightarrow> None
      | Some kernTable \<Rightarrow> Some (map (\<lambda>(pair, v). (pair, scale_int v 1)) kernTable)) = table) k"
    unfolding kern_in_range_def
    by (auto elim!: list_all_mono intro!: map_id_list_all simp: scale_int_one_in_range
        split: option.splits)
  then show ?thesis
    unfolding scale_kern_def by (rule map_id_list_all)
qed

lemma scale_value_field_one: "opt_in_range v \<Longrightarrow> scale_value_field v 1 = v"
  by (cases v) (simp_all add: opt_in_range_def scale_value_field_def scale_int_one_in_range)

lemma scale_value_record_one: "value_record_in_range vr \<Longrightarrow> scale_value_record vr 1 = vr"
  by (simp add: value_record_in_range_def scale_value_record_def scale_value_field_one)

lemma scale_anchor_slot_one: "anchor_slot_in_range a \<Longrightarrow> scale_anchor_slot a 1 = a"
  by (cases a) (simp_all add: anchor_slot_in_range_def scale_anchor_slot_def scale_anchor_def
      scale_opt_one)

lemma scale_pair_value_one: "pair_value_in_range pv \<Longrightarrow> scale_pair_value pv 1 = pv"
  by (cases "Value1 pv"; cases "Value2 pv")
    (simp_all add: pair_value_in_range_def scale_pair_value_def scale_value_record_one)

lemma map_one: "list_all P xs \<Longrightarrow> (\<And>x. P x \<Longrightarrow> h x = x) \<Longrightarrow> map h xs = xs"
  by (induction xs) simp_all

lemma scale_gpos_subtable_one:
  assumes "subtable_in_range st"
  shows "scale_gpos_subtable st 1 = st"
proof -
  have 1: "(case SinglePos st of None \<Rightarrow> None
      | Some records \<Rightarrow> Some (map (\<lambda>r. scale_value_record r 1) records)) = SinglePos st"
    using assms
    by (auto simp: subtable_in_range_def scale_value_record_one split: option.splits
        intro!: map_one [where P = value_record_in_range])
  have 2: "(case PairSet st of None \<Rightarrow> None
      | Some pair_sets \<Rightarrow>
          Some (map (\<lambda>pair_set. case pair_set of None \<Rightarrow> None
                      | Some pvs \<Rightarrow> Some (map (\<lambda>pv. scale_pair_value pv 1) pvs)) pair_sets))
      = PairSet st"
    using assms
    by (auto simp: subtable_in_range_def scale_pair_value_one split: option.splits
        intro!: map_one [where P = pair_value_in_range]
          map_one [where P = "\<lambda>ps. case ps of None \<Rightarrow> True
            | Some pvs \<Rightarrow> list_all pair_value_in_range pvs"])
  have 3: "(case Class1Record st of None \<Rightarrow> None
      | Some c1 \<Rightarrow> Some (map (map (\<lambda>c2. scale_pair_value c2 1)) c1)) = Class1Record st"
    using assms
    by (auto simp: subtable_in_range_def scale_pair_value_one split: option.splits
        intro!: map_one [where P = pair_value_in_range]
          map_one [where P = "list_all pair_value_in_range"])
  have 4: "(case BaseArray st of None \<Rightarrow> None
      | Some rs \<Rightarrow> Some (map (map (\<lambda>a. scale_anchor_slot a 1)) rs)) = BaseArray st"
    using assms
    by (auto simp: subtable_in_range_def scale_anchor_slot_one split: option.splits
        intro!: map_one [where P = anchor_slot_in_range]
          map_one [where P = "list_all anchor_slot_in_range"])
  have 5: "(case MarkArray st of None \<Rightarrow> None
      | Some rs \<Rightarrow> Some (map (\<lambda>a. scale_anchor_slot a 1) rs)) = MarkArray st"
    using assms
    by (auto simp: subtable_in_range_def scale_anchor_slot_one split: option.splits
        intro!: map_one [where P = anchor_slot_in_range])
  have 6: "(case Mark2Array st of None \<Rightarrow> None
      | Some rs \<Rightarrow> Some (map (map (\<lambda>a. scale_anchor_slot a 1)) rs)) = Mark2Array st"
    using assms
    by (auto simp: subtable_in_range_def scale_anchor_slot_one split: option.splits
        intro!: map_one [where P = anchor_slot_in_range]
          map_one [where P = "list_all anchor_slot_in_range"])
  have 7: "(case LigatureArray st of None \<Rightarrow> None
      | Some ls \<Rightarrow> Some (map (map (map (\<lambda>a. scale_anchor_slot a 1))) ls)) = LigatureArray st"
    using assms
    by (auto simp: subtable_in_range_def scale_anchor_slot_one split: option.splits
        intro!: map_one [where P = anchor_slot_in_range]
          map_one [where P = "list_all anchor_slot_in_range"]
          map_one [where P = "list_all (list_all anchor_slot_in_range)"])
  show ?thesis
    unfolding scale_gpos_subtable_def 1 2 3 4 5 6 7 by simp
qed

lemma scale_gpos_values_one:
  assumes "gpos_in_range t"
  shows "scale_gpos_values t 1 = t"
proof (cases "LookupList t")
  case None
  then show ?thesis
    by (simp add: scale_gpos_values_def)
next
  case (Some lookups)
  with assms have "map (map (\<lambda>st. scale_gpos_subtable st 1)) lookups = lookups"
    by (auto simp: gpos_in_range_def scale_gpos_subtable_one
        intro!: map_one [where P = subtable_in_range]
          map_one [where P = "list_all subtable_in_range"])
  with Some show ?thesis
    by (cases t) (simp add: scale_gpos_values_def)
qed

lemma map_option_id_if:
  "(case v of None \<Rightarrow> True | Some x \<Rightarrow> P x) \<Longrightarrow> (\<And>x. P x \<Longrightarrow> h x = x) \<Longrightarrow> map_option h v = v"
  by (cases v) auto


lemmas in_range_eval =
  font_in_range_def glyph_in_range_def metrics_in_range_def bbox_in_range_def
  hhea_in_range_def os2_in_range_def vhea_in_range_def post_in_range_def kern_in_range_def
  gpos_in_range_def subtable_in_range_def pair_value_in_range_def
  value_record_in_range_def anchor_slot_in_range_def opt_in_range_def in_range_def

text \<open>
  C8, as the specification states it: with the factor \<open>1.0\<close> every table value of any valid
  font is unchanged. It fails for a font with CFF outlines: \<open>scale_cff_glyphs\<close> replaces
  every charstring by the one a new pen records, and the pen is made with \<open>width=None\<close>.
  Even if the pens record the drawing commands exactly as they were (\<open>\<lambda>s cs. cs\<close>), the
  charstring of the glyph \<open>A\<close>, which opens with the width \<open>600\<close>, comes back without it.
\<close>

theorem scale_font_identity_counterexample:
  "scale_font_tables (\<lambda>s cs. cs) ex_cff_font 1 None None =
     Inr (ex_cff_font\<lparr>CFF := Some \<lparr>fontNames = Some [''RedditMono-Regular''],
                                     FamilyName = Some ''Reddit Mono'',
                                     FullName = Some ''Reddit Mono Regular'',
                                     CharStrings =
                                       [(''A'', \<lparr>cs_width = None, cs_program = 1\<rparr>),
                                        (''B'', \<lparr>cs_width = None, cs_program = 2\<rparr>)]\<rparr>\<rparr>)
   \<and> scale_font_tables (\<lambda>s cs. cs) ex_cff_font 1 None None \<noteq> Inr ex_cff_font
   \<and> map_option CharStrings (CFF ex_cff_font) =
       Some [(''A'', \<lparr>cs_width = Some 600, cs_program = 1\<rparr>),
             (''B'', \<lparr>cs_width = None, cs_program = 2\<rparr>)]"
  by (simp add: font_eval glyph_eval ex_cff_font_def scale_cff_glyphs_def)

text \<open>
  C8, amended: with the factor \<open>1.0\<close> and no renaming, \<open>scale_font\<close> leaves every table
  value of a font whose numbers are in range as it is, except the charstrings of a CFF
  font: each \<open>int(x * 1.0)\<close> of the outline, metrics, kerning and positioning scalers is
  \<open>x\<close>, and each charstring is replaced by the one the pens record at the factor \<open>1.0\<close>,
  without a width. A font without CFF outlines comes back equal.
\<close>

theorem scale_font_tables_identity:
  assumes "font_in_range f"
    and "scale_font_tables redraw f 1 None None = Inr f'"
  shows "f' = f\<lparr>CFF := map_option
                 (\<lambda>c. c\<lparr>CharStrings :=
                          map (\<lambda>(glyph_name, cs).
                                 (glyph_name,
                                  \<lparr>cs_width = None, cs_program = redraw 1 (cs_program cs)\<rparr>))
                            (CharStrings c)\<rparr>) (CFF f)\<rparr>"
proof -
  from assms(2) obtain f2
    where o: "scale_outlines redraw (CFF f \<noteq> None) f 1 = Inr f2"
      and m: "scale_metrics_tables f2 1 = Inr f'"
    by (auto simp: scale_font_tables_eq rename_if_requested_def split: sum.splits)
  note 1 = scale_outlines_fields [OF o] and 2 = scale_metrics_tables_fields [OF m]
  from assms(1) have r:
    "case glyf f of None \<Rightarrow> True
     | Some glyf_table \<Rightarrow> list_all (\<lambda>(glyph_name, g). glyph_in_range g) glyf_table"
    "case hmtx f of None \<Rightarrow> True | Some m \<Rightarrow> metrics_in_range m"
    "case vmtx f of None \<Rightarrow> True | Some m \<Rightarrow> metrics_in_range m"
    "case head f of None \<Rightarrow> True | Some b \<Rightarrow> bbox_in_range b"
    "case hhea f of None \<Rightarrow> True | Some t \<Rightarrow> hhea_in_range t"
    "case OS2 f of None \<Rightarrow> True | Some t \<Rightarrow> os2_in_range t"
    "case vhea f of None \<Rightarrow> True | Some t \<Rightarrow> vhea_in_range t"
    "case post f of None \<Rightarrow> True | Some t \<Rightarrow> post_in_range t"
    "case kern f of None \<Rightarrow> True | Some k \<Rightarrow> kern_in_range k"
    "case GPOS f of None \<Rightarrow> True | Some g \<Rightarrow> gpos_in_range g"
    unfolding font_in_range_def by blast+
  have glyf: "glyf f2 = glyf f"
    using o r(1)
    by (cases "CFF f"; cases "glyf f")
      (auto simp: scale_outlines_def scale_cff_glyphs_def scale_glyf_one)
  have cff: "CFF f2 = map_option
      (\<lambda>c. c\<lparr>CharStrings :=
               map (\<lambda>(glyph_name, cs).
                      (glyph_name, \<lparr>cs_width = None, cs_program = redraw 1 (cs_program cs)\<rparr>))
                 (CharStrings c)\<rparr>) (CFF f)"
    using o
    by (cases "CFF f"; cases "glyf f") (auto simp: scale_outlines_def scale_cff_glyphs_def)
  have os2: "OS2 f' = OS2 f"
    using 2(9) r(6) unfolding 1
    by (cases "OS2 f"; cases "OS2 f'") (auto dest: scale_os2_one)
  have "hmtx f' = hmtx f"
    unfolding 2 1 using r(2) by (rule map_option_id_if) (rule scale_metrics_one)
  moreover have "vmtx f' = vmtx f"
    unfolding 2 1 using r(3) by (rule map_option_id_if) (rule scale_metrics_one)
  moreover have "head f' = head f"
    unfolding 2 1 using r(4) by (rule map_option_id_if) (rule scale_bbox_one)
  moreover have "hhea f' = hhea f"
    unfolding 2 1 using r(5) by (rule map_option_id_if) (rule scale_hhea_one)
  moreover have "vhea f' = vhea f"
    unfolding 2 1 using r(7) by (rule map_option_id_if) (rule scale_vhea_one)
  moreover have "post f' = post f"
    unfolding 2 1 using r(8) by (rule map_option_id_if) (rule scale_post_one)
  moreover have "kern f' = kern f"
    unfolding 2 1 using r(9) by (rule map_option_id_if) (rule scale_kern_one)
  moreover have "GPOS f' = GPOS f"
    unfolding 2 1 using r(10) by (rule map_option_id_if) (rule scale_gpos_values_one)
  moreover have "name f' = name f" "font.more f' = font.more f" "CFF f' = CFF f2"
    "glyf f' = glyf f2"
    by (simp_all add: 1 2)
  ultimately show ?thesis
    by (intro font.equality) (simp_all add: os2 glyf cff)
qed

theorem scale_font_tables_identity_witness:
  "font_in_range ex_font
   \<and> scale_font_tables (\<lambda>s cs. cs) ex_font 1 None None = Inr ex_font
   \<and> font_in_range ex_cff_font
   \<and> scale_font_tables (\<lambda>s cs. cs + 1) ex_cff_font 1 None None =
       Inr (ex_cff_font\<lparr>CFF := Some \<lparr>fontNames = Some [''RedditMono-Regular''],
                                       FamilyName = Some ''Reddit Mono'',
                                       FullName = Some ''Reddit Mono Regular'',
                                       CharStrings =
                                         [(''A'', \<lparr>cs_width = None, cs_program = 2\<rparr>),
                                          (''B'', \<lparr>cs_width = None, cs_program = 3\<rparr>)]\<rparr>\<rparr>)"
proof -
  have r: "font_in_range ex_font"
    by (simp add: in_range_eval ex_font_def ex_glyf_def ex_simple_glyph_def
        ex_composite_glyph_def ex_hhea_def ex_os2_def ex_subtable_def)
  obtain f' where f': "scale_font_tables (\<lambda>s cs. cs) ex_font 1 None None = Inr f'"
    by (simp add: font_eval ex_glyf_def)
  have "CFF ex_font = None"
    by (simp add: ex_font_def)
  with scale_font_tables_identity [OF r f'] have 1: "f' = ex_font"
    by simp
  have rc: "font_in_range ex_cff_font"
    by (simp add: in_range_eval ex_cff_font_def ex_font_def ex_hhea_def ex_os2_def
        ex_subtable_def)
  obtain g' where g': "scale_font_tables (\<lambda>s cs. cs + 1) ex_cff_font 1 None None = Inr g'"
    by (simp add: font_eval ex_cff_font_def scale_cff_glyphs_def)
  have 2: "g' = ex_cff_font\<lparr>CFF := Some \<lparr>fontNames = Some [''RedditMono-Regular''],
                                       FamilyName = Some ''Reddit Mono'',
                                       FullName = Some ''Reddit Mono Regular'',
                                       CharStrings =
                                         [(''A'', \<lparr>cs_width = None, cs_program = 2\<rparr>),
                                          (''B'', \<lparr>cs_width = None, cs_program = 3\<rparr>)]\<rparr>\<rparr>"
    using scale_font_tables_identity [OF rc g'] by (simp add: ex_cff_font_def)
  from r f' 1 rc g' 2 show ?thesis
    by simp
qed

section \<open>The positioning table\<close>

lemma scale_int_zero [simp]: "scale_int 0 s = 0"
  by (simp add: scale_int_def fmul_def float_of_int_def fl_def py_int_def)

lemma value_scaled_field: "value_scaled s v (scale_value_field v s)"
  by (cases v) (simp_all add: value_scaled_def scale_value_field_def)

lemma value_scaled_opt:
  "value_scaled s v (case v of None \<Rightarrow> None | Some n \<Rightarrow> Some (scale_int n s))"
  by (cases v) (simp_all add: value_scaled_def)

lemma value_record_scaled: "value_record_scaled s vr (scale_value_record vr s)"
  by (simp add: value_record_scaled_def scale_value_record_def value_scaled_field)

lemma anchor_slot_scaled: "rel_option (anchor_scaled s) a (scale_anchor_slot a s)"
  by (cases a) (simp_all add: scale_anchor_slot_def anchor_scaled_def scale_anchor_def
      value_scaled_opt)

lemma pair_value_scaled: "pair_value_scaled s pv (scale_pair_value pv s)"
  by (cases "Value1 pv"; cases "Value2 pv")
    (simp_all add: pair_value_scaled_def scale_pair_value_def value_record_scaled)

lemma list_all2_map_self: "(\<And>x. R x (h x)) \<Longrightarrow> list_all2 R xs (map h xs)"
  by (induction xs) simp_all

lemma rel_option_case_self:
  "(\<And>x. R x (h x)) \<Longrightarrow> rel_option R v (case v of None \<Rightarrow> None | Some x \<Rightarrow> Some (h x))"
  by (cases v) simp_all

lemma visited_scaled: "visited_scaled s st (scale_gpos_subtable st s)"
  unfolding visited_scaled_def scale_gpos_subtable_def
  by (simp add: rel_option_case_self list_all2_map_self value_record_scaled pair_value_scaled
      anchor_slot_scaled)

text \<open>
  Scaling a positioning table never fails on a null entry (the traversal is a total
  function: every null slot is guarded), leaves every null pair set, null value record
  and null anchor null, in its place, and scales every number under the seven attributes
  that it tests. What a subtable holds under another attribute comes back as it was.
\<close>

lemma scale_gpos_values_visited:
  "rel_option (list_all2 (list_all2 (visited_scaled s)))
     (LookupList t) (LookupList (scale_gpos_values t s))"
  by (cases "LookupList t")
    (simp_all add: scale_gpos_values_def list_all2_map_self visited_scaled)

lemma scale_gpos_subtable_others:
  "Value (scale_gpos_subtable st s) = Value st"
  "Mark1Array (scale_gpos_subtable st s) = Mark1Array st"
  "EntryExitRecord (scale_gpos_subtable st s) = EntryExitRecord st"
  "subtable.more (scale_gpos_subtable st s) = subtable.more st"
  by (simp_all add: scale_gpos_subtable_def)

lemma scale_gpos_subtable_ext:
  "ExtSubTable (scale_gpos_subtable st s) = ExtSubTable st"
  by (simp add: scale_gpos_subtable_def)

text \<open>
  C4: a positioning table with a null entry in an anchor slot is scaled without an error
  and the null stays null, but not all of its numbers are scaled. In \<open>ex_gpos\<close>, at the
  factor \<open>1.75\<close>, the anchor \<open>(7, 1)\<close> beside the null slot of \<open>Mark2Array\<close> becomes \<open>(12, 1)\<close>,
  while the anchor \<open>(3, 7)\<close> of \<open>Mark1Array\<close> and the advance \<open>-7\<close> of the single adjustment
  come back as they were, where \<open>int(v * 1.75)\<close> is \<open>(5, 12)\<close> and \<open>-12\<close>: the block under
  the comment \<open># Single adjustment (lookup type 1)\<close> tests the attribute \<open>SinglePos\<close>, which
  the subtable does not have, and no block reads \<open>Mark1Array\<close>, although \<open>MarkArray\<close>, the
  same structure in the mark-to-base subtable, is scaled.
\<close>

theorem scale_gpos_values_unscaled_numbers:
  "scale_gpos_values ex_gpos (7 / 4) =
     \<lparr>LookupList = Some
        [[\<lparr>SinglePos = None, PairSet = None, Class1Record = None, BaseArray = None,
           MarkArray = None, Mark2Array = None, LigatureArray = None,
           Value = Some [\<lparr>XPlacement = None, YPlacement = None,
                           XAdvance = Some (- 7), YAdvance = None\<rparr>],
           Mark1Array = None, EntryExitRecord = None, ExtSubTable = None\<rparr>],
         [\<lparr>SinglePos = None, PairSet = None, Class1Record = None, BaseArray = None,
           MarkArray = None,
           Mark2Array = Some [[None, Some \<lparr>XCoordinate = Some 12, YCoordinate = Some 1\<rparr>]],
           LigatureArray = None,
           Value = None,
           Mark1Array = Some [Some \<lparr>XCoordinate = Some 3, YCoordinate = Some 7\<rparr>],
           EntryExitRecord = None, ExtSubTable = None\<rparr>]]\<rparr>
   \<and> scale_int (- 7) (7 / 4) = - 12
   \<and> scale_int 3 (7 / 4) = 5
   \<and> scale_int 7 (7 / 4) = 12
   \<and> \<not> rel_option (list_all2 (list_all2 (lookup_subtable_scaled (7 / 4))))
         (LookupList ex_gpos) (LookupList (scale_gpos_values ex_gpos (7 / 4)))"
  by (simp add: ex_gpos_def ex_single_adjustment_def ex_mark_to_mark_def font_eval
      scale_int_exact py_int_def lookup_subtable_scaled_def subtable_scaled_def
      visited_scaled_def value_record_scaled_def value_scaled_def)

section \<open>Renaming\<close>


lemma starts_with_iff: "starts_with t p \<longleftrightarrow> take (length p) t = p"
  by (induction t p rule: starts_with.induct) auto

lemma contains_iff: "contains t sub \<longleftrightarrow> (\<exists>pre suf. t = pre @ sub @ suf)"
proof (induction t)
  case Nil
  then show ?case by auto
next
  case (Cons c cs)
  show ?case
  proof
    assume "contains (c # cs) sub"
    then consider "starts_with (c # cs) sub" | "contains cs sub"
      by auto
    then show "\<exists>pre suf. c # cs = pre @ sub @ suf"
    proof cases
      case 1
      then have "c # cs = [] @ sub @ drop (length sub) (c # cs)"
        by (simp add: starts_with_iff) (metis append_take_drop_id)
      then show ?thesis by blast
    next
      case 2
      with Cons obtain pre suf where "cs = pre @ sub @ suf"
        by blast
      then have "c # cs = (c # pre) @ sub @ suf"
        by simp
      then show ?thesis by blast
    qed
  next
    assume "\<exists>pre suf. c # cs = pre @ sub @ suf"
    then obtain pre suf where eq: "c # cs = pre @ sub @ suf"
      by blast
    show "contains (c # cs) sub"
    proof (cases pre)
      case Nil
      with eq have "starts_with (c # cs) sub"
        by (simp add: starts_with_iff)
      then show ?thesis by simp
    next
      case (Cons a pre')
      with eq have "cs = pre' @ sub @ suf"
        by simp
      with Cons.IH show ?thesis
        by auto
    qed
  qed
qed

lemma replace_nonempty:
  "old \<noteq> [] \<Longrightarrow> t \<noteq> [] \<Longrightarrow>
   replace t old new =
     (if starts_with t old then new @ replace (drop (length old) t) old new
      else hd t # replace (tl t) old new)"
  by (subst replace.simps) (simp split: list.split)

lemma replace_absent: "\<not> contains t old \<Longrightarrow> replace t old new = t"
proof (induction t)
  case Nil
  then show ?case by (auto simp: replace.simps [of "[]"])
next
  case (Cons c cs)
  then have "old \<noteq> []" "\<not> starts_with (c # cs) old" "\<not> contains cs old"
    by auto
  with Cons.IH show ?case
    by (simp add: replace_nonempty)
qed

lemma replace_first:
  assumes "old \<noteq> []" "\<not> contains (pre @ butlast old) old"
  shows "replace (pre @ old @ suf) old new = pre @ new @ replace suf old new"
  using assms(2)
proof (induction pre)
  case Nil
  have "starts_with (old @ suf) old"
    by (simp add: starts_with_iff)
  with assms(1) show ?case
    by (simp add: replace_nonempty)
next
  case (Cons c pre)
  from Cons.prems have a: "\<not> starts_with (c # pre @ butlast old) old"
    and b: "\<not> contains (pre @ butlast old) old"
    by auto
  have "old @ suf = butlast old @ last old # suf"
    using assms(1) by (cases old rule: rev_cases) simp_all
  then have "c # pre @ old @ suf = (c # pre @ butlast old) @ last old # suf"
    by simp
  moreover have "length old \<le> length (c # pre @ butlast old)"
    by simp
  ultimately have "take (length old) (c # pre @ old @ suf) =
      take (length old) (c # pre @ butlast old)"
    by (simp only: take_append) simp
  with a have "\<not> starts_with (c # pre @ old @ suf) old"
    by (metis starts_with_iff)
  with assms(1) Cons.IH [OF b] show ?case
    by (simp add: replace_nonempty)
qed


lemma same_ids_iff: "same_ids r r' \<longleftrightarrow> record_ids r = record_ids r'"
  by (auto simp: same_ids_def record_ids_def)

lemma record_ids_update [simp]: "record_ids (r\<lparr>toUnicode := v\<rparr>) = record_ids r"
  by (simp add: record_ids_def)

lemma setName_update:
  assumes "distinct (map record_ids names)" "i < length names"
    and "record_ids (names ! i) = record_ids r"
  shows "setName s r names = names[i := (names ! i)\<lparr>toUnicode := Some s\<rparr>]"
  using assms
proof (induction names arbitrary: i)
  case Nil
  then show ?case by simp
next
  case (Cons n names)
  show ?case
  proof (cases i)
    case 0
    with Cons.prems show ?thesis
      by (simp add: same_ids_iff)
  next
    case (Suc j)
    with Cons.prems have j: "j < length names" "record_ids (names ! j) = record_ids r"
      by simp_all
    then have "record_ids r \<in> set (map record_ids names)"
      by (metis length_map nth_map nth_mem)
    with Cons.prems(1) have "record_ids n \<noteq> record_ids r"
      by auto
    with Cons.IH [OF _ j] Cons.prems(1) Suc show ?thesis
      by (simp add: same_ids_iff)
  qed
qed

lemma record_ids_rename_one [simp]: "record_ids (rename_one a b r) = record_ids r"
  by (simp add: rename_one_def split: option.split)

lemma rename_record_update:
  assumes "distinct (map record_ids names)" "i < length names"
  shows "rename_record a b (names ! i) names = names[i := rename_one a b (names ! i)]"
proof -
  have "setName s (names ! i) names = names[i := (names ! i)\<lparr>toUnicode := Some s\<rparr>]" for s
    using assms by (intro setName_update) simp_all
  then show ?thesis
    by (simp add: rename_record_def rename_one_def Let_def split: option.split)
qed

lemma rename_names_map:
  assumes "distinct (map record_ids orig)" "i \<le> length orig"
    and "names = map (rename_one a b) (take i orig) @ drop i orig"
  shows "rename_names a b i names = map (rename_one a b) orig"
  using assms
proof (induction a b i names rule: rename_names.induct)
  case (1 a b i names)
  have len: "length names = length orig"
    using "1.prems" by simp
  show ?case
  proof (cases "i < length names")
    case False
    with len "1.prems" have "i = length orig"
      by simp
    moreover from False have "rename_names a b i names = names"
      by (subst rename_names.simps) simp
    ultimately show ?thesis
      using "1.prems"(3) by simp
  next
    case True
    with len have i: "i < length orig"
      by simp
    have ids: "map record_ids names = map record_ids orig"
    proof -
      have "map record_ids names = map record_ids (take i orig) @ map record_ids (drop i orig)"
        unfolding "1.prems"(3) by (simp add: comp_def)
      also have "\<dots> = map record_ids (take i orig @ drop i orig)"
        by (simp only: map_append)
      finally show ?thesis
        by (simp only: append_take_drop_id)
    qed
    have at: "names ! i = orig ! i"
      using i unfolding "1.prems"(3) by (simp add: nth_append)
    have "rename_record a b (names ! i) names = names[i := rename_one a b (names ! i)]"
      using True "1.prems"(1) by (intro rename_record_update) (simp_all add: ids)
    also have "\<dots> = names[i := rename_one a b (orig ! i)]"
      by (simp only: at)
    also have "\<dots> =
        (map (rename_one a b) (take i orig) @ orig ! i # drop (Suc i) orig)
          [i := rename_one a b (orig ! i)]"
      using i unfolding "1.prems"(3) by (simp only: Cons_nth_drop_Suc)
    also have "\<dots> = map (rename_one a b) (take (Suc i) orig) @ drop (Suc i) orig"
      using i by (simp add: list_update_append take_Suc_conv_app_nth)
    finally have step: "rename_record a b (names ! i) names =
        map (rename_one a b) (take (Suc i) orig) @ drop (Suc i) orig" .
    from i have "Suc i \<le> length orig"
      by simp
    from "1.IH" [OF True "1.prems"(1) this step]
    have "rename_names a b (Suc i) (rename_record a b (names ! i) names) =
        map (rename_one a b) orig" .
    moreover from True have "rename_names a b i names =
        rename_names a b (Suc i) (rename_record a b (names ! i) names)"
      by (subst rename_names.simps) simp
    ultimately show ?thesis
      by simp
  qed
qed

text \<open>
  C9: in a naming table whose records have distinct identifying numbers, renaming replaces
  in every record every occurrence of the old family name by the new one; in a record
  that has the old name only without its spaces, every occurrence of that form by the new
  name without spaces; a record that cannot be decoded is skipped. \<open>contains\<close> is the
  substring test. The witness has the two examples of the specification.
\<close>

theorem rename_names_replaces:
  assumes "distinct (map record_ids names)"
  shows "rename_names old_family new_family 0 names =
      map (\<lambda>r. case toUnicode r of
                  None \<Rightarrow> r
                | Some t \<Rightarrow>
                    if contains t old_family
                    then r\<lparr>toUnicode := Some (replace t old_family new_family)\<rparr>
                    else if contains t (nospace old_family)
                    then r\<lparr>toUnicode :=
                             Some (replace t (nospace old_family) (nospace new_family))\<rparr>
                    else r) names
    \<and> (\<forall>t sub. contains t sub \<longleftrightarrow> (\<exists>pre suf. t = pre @ sub @ suf))"
proof -
  have "rename_names old_family new_family 0 names = map (rename_one old_family new_family) names"
    using assms by (intro rename_names_map) simp_all
  then show ?thesis
    by (simp add: rename_one_def [abs_def] contains_iff)
qed

lemma rename_eval:
  "nospace ''Reddit Mono'' = ''RedditMono''"
  "nospace ''RedditRadon Mono'' = ''RedditRadonMono''"
  "contains ''Reddit Mono Regular'' ''Reddit Mono''"
  "\<not> contains ''RedditMono-Regular'' ''Reddit Mono''"
  "contains ''RedditMono-Regular'' ''RedditMono''"
  "\<not> contains ''Version 1.0'' ''Reddit Mono''"
  "\<not> contains ''Version 1.0'' ''RedditMono''"
  "replace ''Reddit Mono Regular'' ''Reddit Mono'' ''RedditRadon Mono'' =
     ''RedditRadon Mono Regular''"
  "replace ''RedditMono-Regular'' ''RedditMono'' ''RedditRadonMono'' =
     ''RedditRadonMono-Regular''"
  by code_simp+

theorem rename_names_replaces_witness:
  "distinct (map record_ids ex_names)
   \<and> rename_names ''Reddit Mono'' ''RedditRadon Mono'' 0 ex_names =
       [\<lparr>nameID = 4, platformID = 3, platEncID = 1, langID = 1033,
         toUnicode = Some ''RedditRadon Mono Regular''\<rparr>,
        \<lparr>nameID = 6, platformID = 3, platEncID = 1, langID = 1033,
         toUnicode = Some ''RedditRadonMono-Regular''\<rparr>,
        \<lparr>nameID = 1, platformID = 1, platEncID = 0, langID = 0, toUnicode = None\<rparr>,
        \<lparr>nameID = 5, platformID = 3, platEncID = 1, langID = 1033,
         toUnicode = Some ''Version 1.0''\<rparr>]"
proof -
  have d: "distinct (map record_ids ex_names)"
    by (simp add: ex_names_def record_ids_def)
  from rename_names_replaces [OF d, of "''Reddit Mono''" "''RedditRadon Mono''"]
  have "rename_names ''Reddit Mono'' ''RedditRadon Mono'' 0 ex_names =
      map (\<lambda>r. case toUnicode r of
                  None \<Rightarrow> r
                | Some t \<Rightarrow>
                    if contains t ''Reddit Mono''
                    then r\<lparr>toUnicode := Some (replace t ''Reddit Mono'' ''RedditRadon Mono'')\<rparr>
                    else if contains t (nospace ''Reddit Mono'')
                    then r\<lparr>toUnicode :=
                             Some (replace t (nospace ''Reddit Mono'')
                                     (nospace ''RedditRadon Mono''))\<rparr>
                    else r) ex_names"
    by (rule conjunct1)
  also have "\<dots> =
       [\<lparr>nameID = 4, platformID = 3, platEncID = 1, langID = 1033,
         toUnicode = Some ''RedditRadon Mono Regular''\<rparr>,
        \<lparr>nameID = 6, platformID = 3, platEncID = 1, langID = 1033,
         toUnicode = Some ''RedditRadonMono-Regular''\<rparr>,
        \<lparr>nameID = 1, platformID = 1, platEncID = 0, langID = 0, toUnicode = None\<rparr>,
        \<lparr>nameID = 5, platformID = 3, platEncID = 1, langID = 1033,
         toUnicode = Some ''Version 1.0''\<rparr>]"
    by (simp add: ex_names_def rename_eval)
  finally show ?thesis
    using d by simp
qed


section \<open>The batch loop\<close>

lemma fst_batch_loop_Cons:
  "fst (batch_loop redraw sfx s rf rt fs (p # ps)) =
     (case scale_font redraw fs (str_path p) (output_path sfx p) s rf rt of
        Inl e \<Rightarrow> fst (batch_loop redraw sfx s rf rt fs ps)
      | Inr fs1 \<Rightarrow> fst (batch_loop redraw sfx s rf rt fs1 ps))"
  by (simp add: split_beta split: sum.split)

lemma snd_batch_loop_Cons:
  "snd (batch_loop redraw sfx s rf rt fs (p # ps)) =
     (case scale_font redraw fs (str_path p) (output_path sfx p) s rf rt of
        Inl e \<Rightarrow> Error_processing p e # snd (batch_loop redraw sfx s rf rt fs ps)
      | Inr fs1 \<Rightarrow> Blank_line # snd (batch_loop redraw sfx s rf rt fs1 ps))"
  by (simp add: split_beta split: sum.split)

lemmas batch_loop_Cons = fst_batch_loop_Cons snd_batch_loop_Cons

declare batch_loop.simps(2) [simp del]

lemma batch_loop_untouched:
  "x \<notin> output_path sfx ` set files \<Longrightarrow>
   fst (batch_loop redraw sfx s rf rt fs files) x = fs x"
proof (induction files arbitrary: fs)
  case Nil
  then show ?case by simp
next
  case (Cons p ps)
  then show ?case
    by (auto simp: batch_loop_Cons scale_font_def split: sum.splits)
qed

lemma scale_font_same_input:
  assumes "fs1 i = fs i"
  shows "(case scale_font redraw fs1 i out s rf rt of Inl e \<Rightarrow> A e | Inr u \<Rightarrow> B) =
     (case scale_font redraw fs i out s rf rt of Inl e \<Rightarrow> A e | Inr u \<Rightarrow> B)"
    and "TTFont fs1 i = TTFont fs i"
  using assms by (simp_all add: scale_font_def TTFont_def split: sum.splits option.splits)

lemma batch_loop_isolated:
  assumes "distinct (map str_path files)"
    and "distinct (map (output_path sfx) files)"
    and "\<forall>p \<in> set files. \<forall>q \<in> set files. output_path sfx p = str_path q \<longrightarrow> p = q"
  shows "snd (batch_loop redraw sfx s rf rt fs files) =
      map (\<lambda>p. case scale_font redraw fs (str_path p) (output_path sfx p) s rf rt of
                  Inl e \<Rightarrow> Error_processing p e | Inr u \<Rightarrow> Blank_line) files"
    and "\<forall>p \<in> set files. \<forall>f f'.
      TTFont fs (str_path p) = Inr f \<and> scale_font_tables redraw f s rf rt = Inr f' \<longrightarrow>
      fst (batch_loop redraw sfx s rf rt fs files) (output_path sfx p) = Some (FontFile f')"
  using assms
proof (induction files arbitrary: fs)
  case Nil
  {
    case 1
    show ?case by simp
  next
    case 2
    show ?case by simp
  }
next
  case (Cons p ps)
  {
    case 1
    have d: "distinct (map str_path ps)" "distinct (map (output_path sfx) ps)"
      "\<forall>p \<in> set ps. \<forall>q \<in> set ps. output_path sfx p = str_path q \<longrightarrow> p = q"
      using 1 by simp_all
    have other: "str_path q \<noteq> output_path sfx p" if "q \<in> set ps" for q
    proof
      assume "str_path q = output_path sfx p"
      with 1(3) that have "p = q" by simp
      with 1(1) that show False by auto
    qed
    show ?case
    proof (cases "scale_font redraw fs (str_path p) (output_path sfx p) s rf rt")
      case (Inl e)
      with Cons.IH(1) [OF d, of fs] show ?thesis
        by (simp add: batch_loop_Cons)
    next
      case (Inr fs1)
      then obtain f' where fs1: "fs1 = fs(output_path sfx p \<mapsto> FontFile f')"
        by (auto simp: scale_font_def split: sum.splits)
      have "map (\<lambda>q. case scale_font redraw fs1 (str_path q) (output_path sfx q) s rf rt of
                  Inl e \<Rightarrow> Error_processing q e | Inr u \<Rightarrow> Blank_line) ps =
          map (\<lambda>q. case scale_font redraw fs (str_path q) (output_path sfx q) s rf rt of
                  Inl e \<Rightarrow> Error_processing q e | Inr u \<Rightarrow> Blank_line) ps"
        by (intro map_cong refl scale_font_same_input(1)) (use other in \<open>simp add: fs1\<close>)
      with Inr Cons.IH(1) [OF d, of fs1] show ?thesis
        by (simp add: batch_loop_Cons)
    qed
  next
    case 2
    have d: "distinct (map str_path ps)" "distinct (map (output_path sfx) ps)"
      "\<forall>p \<in> set ps. \<forall>q \<in> set ps. output_path sfx p = str_path q \<longrightarrow> p = q"
      using 2 by simp_all
    have other: "str_path q \<noteq> output_path sfx p" if "q \<in> set ps" for q
    proof
      assume "str_path q = output_path sfx p"
      with 2(3) that have "p = q" by simp
      with 2(1) that show False by auto
    qed
    have fresh: "output_path sfx p \<notin> output_path sfx ` set ps"
      using 2(2) by simp
    show ?case
    proof (cases "scale_font redraw fs (str_path p) (output_path sfx p) s rf rt")
      case (Inl e)
      then have "\<not> (TTFont fs (str_path p) = Inr f \<and> scale_font_tables redraw f s rf rt = Inr f')"
        for f f'
        by (auto simp: scale_font_def)
      with Inl Cons.IH(2) [OF d, of fs] show ?thesis
        by (auto simp: batch_loop_Cons)
    next
      case (Inr fs1)
      then obtain f0 f0' where f0: "TTFont fs (str_path p) = Inr f0"
        "scale_font_tables redraw f0 s rf rt = Inr f0'"
        and fs1: "fs1 = fs(output_path sfx p \<mapsto> FontFile f0')"
        by (auto simp: scale_font_def split: sum.splits)
      have here: "fst (batch_loop redraw sfx s rf rt fs1 ps) (output_path sfx p) =
          Some (FontFile f0')"
        using batch_loop_untouched [OF fresh, of redraw s rf rt fs1] by (simp add: fs1)
      have rest: "TTFont fs1 (str_path q) = TTFont fs (str_path q)" if "q \<in> set ps" for q
        by (intro scale_font_same_input(2)) (use other [OF that] in \<open>simp add: fs1\<close>)
      show ?thesis
      proof (intro ballI allI impI)
        fix q f f'
        assume q: "q \<in> set (p # ps)"
          and ok: "TTFont fs (str_path q) = Inr f \<and> scale_font_tables redraw f s rf rt = Inr f'"
        show "fst (batch_loop redraw sfx s rf rt fs (p # ps)) (output_path sfx q) =
            Some (FontFile f')"
        proof (cases "q = p")
          case True
          with ok f0 have "f' = f0'" by simp
          with True Inr here show ?thesis
            by (simp add: batch_loop_Cons)
        next
          case False
          with q have qs: "q \<in> set ps" by simp
          with ok rest have "TTFont fs1 (str_path q) = Inr f \<and>
              scale_font_tables redraw f s rf rt = Inr f'"
            by simp
          with Cons.IH(2) [OF d, of fs1] qs
          have "fst (batch_loop redraw sfx s rf rt fs1 ps) (output_path sfx q) =
              Some (FontFile f')"
            by blast
          with Inr show ?thesis
            by (simp add: batch_loop_Cons)
        qed
      qed
    qed
  }
qed


lemma batch_loop_one_line_each:
  "list_all2 (\<lambda>p line. line = Blank_line \<or> (\<exists>e. line = Error_processing p e))
     files (snd (batch_loop redraw sfx s rf rt fs files))"
proof (induction files arbitrary: fs)
  case Nil
  then show ?case by simp
next
  case (Cons p ps)
  then show ?case
    by (cases "scale_font redraw fs (str_path p) (output_path sfx p) s rf rt")
      (simp_all add: batch_loop_Cons)
qed

text \<open>
  C6: in batch mode a file on which \<open>scale_font\<close> raises does not stop the loop: every
  file gets its one line, an error line naming it or a blank line, and the closing line
  follows. When the files are distinct and no output file is the input of another file,
  every file is processed on its own: the loop prints the error line for exactly the
  files on which \<open>scale_font\<close> raises, and the output of each file on which it does not
  raise holds that file's scaled font.
\<close>

theorem main_batch_isolates_failures:
  "(\<exists>lines. snd (main_batch redraw args_suffix s rename_from rename_to fs font_files) =
        lines @ [All_fonts_processed]
      \<and> list_all2 (\<lambda>p line. line = Blank_line \<or> (\<exists>e. line = Error_processing p e))
            font_files lines)
   \<and> (distinct (map str_path font_files)
       \<and> distinct (map (output_path args_suffix) font_files)
       \<and> (\<forall>p \<in> set font_files. \<forall>q \<in> set font_files.
             output_path args_suffix p = str_path q \<longrightarrow> p = q)
       \<longrightarrow>
       snd (main_batch redraw args_suffix s rename_from rename_to fs font_files) =
         map (\<lambda>p. case scale_font redraw fs (str_path p) (output_path args_suffix p) s
                          rename_from rename_to of
                     Inl e \<Rightarrow> Error_processing p e
                   | Inr u \<Rightarrow> Blank_line) font_files
         @ [All_fonts_processed]
       \<and> (\<forall>p \<in> set font_files. \<forall>f f'.
             TTFont fs (str_path p) = Inr f \<and>
             scale_font_tables redraw f s rename_from rename_to = Inr f' \<longrightarrow>
             fst (main_batch redraw args_suffix s rename_from rename_to fs font_files)
               (output_path args_suffix p) = Some (FontFile f')))"
proof (intro conjI impI)
  show "\<exists>lines. snd (main_batch redraw args_suffix s rename_from rename_to fs font_files) =
        lines @ [All_fonts_processed]
      \<and> list_all2 (\<lambda>p line. line = Blank_line \<or> (\<exists>e. line = Error_processing p e))
            font_files lines"
    using batch_loop_one_line_each [of font_files redraw args_suffix s rename_from rename_to fs]
    by (simp add: main_batch_def split_beta)
next
  assume h: "distinct (map str_path font_files)
       \<and> distinct (map (output_path args_suffix) font_files)
       \<and> (\<forall>p \<in> set font_files. \<forall>q \<in> set font_files.
             output_path args_suffix p = str_path q \<longrightarrow> p = q)"
  then have h1: "distinct (map str_path font_files)"
    and h2: "distinct (map (output_path args_suffix) font_files)"
    and h3: "\<forall>p \<in> set font_files. \<forall>q \<in> set font_files.
             output_path args_suffix p = str_path q \<longrightarrow> p = q"
    by blast+
  note iso = batch_loop_isolated [OF h1 h2 h3, where redraw = redraw and s = s
      and rf = rename_from and rt = rename_to and fs = fs]
  from iso(1)
  show "snd (main_batch redraw args_suffix s rename_from rename_to fs font_files) =
         map (\<lambda>p. case scale_font redraw fs (str_path p) (output_path args_suffix p) s
                          rename_from rename_to of
                     Inl e \<Rightarrow> Error_processing p e
                   | Inr u \<Rightarrow> Blank_line) font_files
         @ [All_fonts_processed]"
    by (simp add: main_batch_def split_beta)
  from iso(2)
  show "\<forall>p \<in> set font_files. \<forall>f f'.
             TTFont fs (str_path p) = Inr f \<and>
             scale_font_tables redraw f s rename_from rename_to = Inr f' \<longrightarrow>
             fst (main_batch redraw args_suffix s rename_from rename_to fs font_files)
               (output_path args_suffix p) = Some (FontFile f')"
    by (simp add: main_batch_def split_beta)
qed


theorem main_batch_isolates_failures_witness:
  "distinct (map str_path ex_paths) \<and> distinct (map (output_path []) ex_paths)
   \<and> snd (main_batch (\<lambda>s cs. cs) [] (7 / 4) None None ex_fs ex_paths) =
       [Blank_line,
        Error_processing
          \<lparr>parent = ''fonts/mono/ttf'', stem = ''RedditMono-Light'', path_suffix = ''.ttf''\<rparr>
          TTLibError,
        Blank_line,
        All_fonts_processed]
   \<and> (\<exists>f'. scale_font_tables (\<lambda>s cs. cs) ex_font (7 / 4) None None = Inr f'
         \<and> fst (main_batch (\<lambda>s cs. cs) [] (7 / 4) None None ex_fs ex_paths)
               ''fonts/mono/ttf/RedditMono-Bold.ttf'' = Some (FontFile f')
         \<and> fst (main_batch (\<lambda>s cs. cs) [] (7 / 4) None None ex_fs ex_paths)
               ''fonts/mono/ttf/RedditMono-Regular.ttf'' = Some (FontFile f'))"
proof -
  have p: "map str_path ex_paths =
      [''fonts/mono/ttf/RedditMono-Bold.ttf'', ''fonts/mono/ttf/RedditMono-Light.ttf'',
       ''fonts/mono/ttf/RedditMono-Regular.ttf'']"
    and o: "map (output_path []) ex_paths = map str_path ex_paths"
    by (simp_all add: ex_paths_def str_path_def output_path_def)
  have d: "distinct (map str_path ex_paths)"
    unfolding p by simp
  then have d': "distinct (map (output_path []) ex_paths)"
    by (simp only: o)
  have c: "\<forall>p \<in> set ex_paths. \<forall>q \<in> set ex_paths. output_path [] p = str_path q \<longrightarrow> p = q"
    by (simp add: ex_paths_def str_path_def output_path_def)
  obtain f' where f': "scale_font_tables (\<lambda>s cs. cs) ex_font (7 / 4) None None = Inr f'"
    by (simp add: font_eval glyph_eval)
  have l: "TTFont ex_fs ''fonts/mono/ttf/RedditMono-Bold.ttf'' = Inr ex_font"
    "TTFont ex_fs ''fonts/mono/ttf/RedditMono-Light.ttf'' = Inl TTLibError"
    "TTFont ex_fs ''fonts/mono/ttf/RedditMono-Regular.ttf'' = Inr ex_font"
    by (simp_all add: TTFont_def ex_fs_def)
  from main_batch_isolates_failures [where redraw = "\<lambda>s cs. cs" and s = "7 / 4"
      and rename_from = None and rename_to = None and fs = ex_fs and font_files = ex_paths
      and args_suffix = "[]"] d d' c
  have main:
    "snd (main_batch (\<lambda>s cs. cs) [] (7 / 4) None None ex_fs ex_paths) =
       map (\<lambda>p. case scale_font (\<lambda>s cs. cs) ex_fs (str_path p) (output_path [] p) (7 / 4)
                        None None of
                   Inl e \<Rightarrow> Error_processing p e
                 | Inr u \<Rightarrow> Blank_line) ex_paths
       @ [All_fonts_processed]"
    "\<forall>p \<in> set ex_paths. \<forall>f f'.
       TTFont ex_fs (str_path p) = Inr f \<and>
       scale_font_tables (\<lambda>s cs. cs) f (7 / 4) None None = Inr f' \<longrightarrow>
       fst (main_batch (\<lambda>s cs. cs) [] (7 / 4) None None ex_fs ex_paths) (output_path [] p) =
         Some (FontFile f')"
    by blast+
  from main(1) have "snd (main_batch (\<lambda>s cs. cs) [] (7 / 4) None None ex_fs ex_paths) =
       [Blank_line,
        Error_processing
          \<lparr>parent = ''fonts/mono/ttf'', stem = ''RedditMono-Light'', path_suffix = ''.ttf''\<rparr>
          TTLibError,
        Blank_line,
        All_fonts_processed]"
    by (simp add: ex_paths_def str_path_def output_path_def scale_font_def l [simplified] f')
  moreover from main(2) l f'
  have "fst (main_batch (\<lambda>s cs. cs) [] (7 / 4) None None ex_fs ex_paths)
               ''fonts/mono/ttf/RedditMono-Bold.ttf'' = Some (FontFile f')"
    and "fst (main_batch (\<lambda>s cs. cs) [] (7 / 4) None None ex_fs ex_paths)
               ''fonts/mono/ttf/RedditMono-Regular.ttf'' = Some (FontFile f')"
    by (simp_all add: ex_paths_def str_path_def output_path_def)
  ultimately show ?thesis
    using d d' f' by blast
qed


end
